theory Spec2Isabelle
  imports Main "HOL-Library.Multiset" "HOL-Library.Word"
begin

section \<open>Data shared by the three notebook cells\<close>

text \<open>
  The notebook \<^verbatim>\<open>parallel-async.ipynb\<close> has three code cells (Serial, Parallel, Async).
  Each fetches the same list \<^verbatim>\<open>URLS\<close> and prints one line per URL. The three cells reuse
  the names \<^verbatim>\<open>load_url\<close>, \<^verbatim>\<open>main\<close> and \<^verbatim>\<open>URLS\<close>; here they carry the cell as a suffix.
\<close>

type_synonym url = string

type_synonym bytes = "8 word list"

text \<open>
  A Python exception caught by \<^verbatim>\<open>except Exception as exc\<close>: the group of its class
  (connection and name-resolution errors, HTTP status errors, timeouts, anything else) and
  the text that \<^verbatim>\<open>str(exc)\<close> yields.
\<close>

datatype failure = NetworkFailure | ProtocolFailure | TimeoutFailure | OtherFailure

datatype exn = Exception failure string

fun str :: "exn \<Rightarrow> string" where
  "str (Exception k msg) = msg"

text \<open>An HTTP response object: the fields the cells or their clients look at.\<close>

record response =
  status_code :: nat
  reason :: string
  content :: bytes

text \<open>
  One \<^verbatim>\<open>print\<close> call of a cell. Every cell has exactly two \<^verbatim>\<open>print\<close> statements:
  the one with the template ``page is ... bytes'' and the one with the template
  ``generated an exception: ...''. An outcome records which statement ran and the values
  substituted into its template; the functions \<open>line_serial\<close>, \<open>line_parallel\<close> and
  \<open>line_async\<close> below give the text that reaches the console.
\<close>

datatype outcome =
    is_Success: Success (target: url) nat
  | Failure (target: url) string

type_synonym console = "outcome list"

definition print :: "outcome \<Rightarrow> console \<Rightarrow> console" where
  "print x out = out @ [x]"

text \<open>Decimal notation of a non-negative integer, as \<^verbatim>\<open>{n}\<close> and \<^verbatim>\<open>%d\<close> format it.\<close>

definition digit :: "nat \<Rightarrow> char" where
  "digit d = ''0123456789'' ! d"

fun decimal :: "nat \<Rightarrow> string" where
  "decimal n = (if n < 10 then [digit n] else decimal (n div 10) @ [digit (n mod 10)])"

declare decimal.simps [simp del]

text \<open>Reading a decimal numeral back (used to state that the printed count is the number).\<close>

definition digit_value :: "char \<Rightarrow> nat" where
  "digit_value c = of_char c - 48"

definition read_decimal :: "string \<Rightarrow> nat" where
  "read_decimal s = foldl (\<lambda>a c. 10 * a + digit_value c) 0 s"

definition URLS :: "url list" where
  "URLS = [''http://www.foxnews.com/'',
           ''http://www.cnn.com/'',
           ''http://europe.wsj.com/'',
           ''http://www.bbc.co.uk/'',
           ''http://nonexistent-subdomain.python.org/'']"

section \<open>The Serial cell\<close>

text \<open>
  \<^verbatim>\<open>
  def load_url(url):
      try:
          response = requests.get(url, timeout=60)
          print(f'{url} page is {len(response.content)} bytes')
      except Exception as exc:
          print(f'{url} generated an exception: {exc}')

  def main():
      for url in URLS:
          load_url(url)
  \<close>
  \<^verbatim>\<open>requests.get\<close> belongs to a third-party library and is a parameter: given the URL and
  the timeout it either raises (\<open>Inl\<close>) or returns a response (\<open>Inr\<close>). The code never
  reads \<^verbatim>\<open>response.status_code\<close>. \<^verbatim>\<open>main\<close> loops over the global \<^verbatim>\<open>URLS\<close>; here the list
  is an argument, and the notebook's run is \<open>main_serial requests_get URLS []\<close>. The console
  is passed through: \<^verbatim>\<open>print\<close> appends to it.
\<close>

definition line_serial :: "outcome \<Rightarrow> string" where
  "line_serial x =
     (case x of
        Success url n \<Rightarrow> url @ '' page is '' @ decimal n @ '' bytes''
      | Failure url d \<Rightarrow> url @ '' generated an exception: '' @ d)"

definition load_url_serial ::
  "(url \<Rightarrow> nat \<Rightarrow> exn + response) \<Rightarrow> url \<Rightarrow> console \<Rightarrow> console" where
  "load_url_serial requests_get url out =
     (case requests_get url 60 of
        Inr response \<Rightarrow> print (Success url (length (content response))) out
      | Inl exc \<Rightarrow> print (Failure url (str exc)) out)"

fun main_serial ::
  "(url \<Rightarrow> nat \<Rightarrow> exn + response) \<Rightarrow> url list \<Rightarrow> console \<Rightarrow> console" where
  "main_serial requests_get [] out = out"
| "main_serial requests_get (url # urls) out =
     main_serial requests_get urls (load_url_serial requests_get url out)"

section \<open>The Parallel cell\<close>

text \<open>
  \<^verbatim>\<open>
  def load_url(url, timeout):
      with urllib.request.urlopen(url, timeout=timeout) as conn:
          return conn.read()

  with concurrent.futures.ThreadPoolExecutor(max_workers=5) as executor:
      future_to_url = {executor.submit(load_url, url, 60): url for url in URLS}
      for future in concurrent.futures.as_completed(future_to_url):
          url = future_to_url[future]
          try:
              data = future.result()
          except Exception as exc:
              print('%r generated an exception: %s' % (url, exc))
          else:
              print('%r page is %d bytes' % (url, len(data)))
  \<close>
  Parameters: \<^verbatim>\<open>urlopen\<close> and \<^verbatim>\<open>conn.read\<close> (standard library), the builtin \<^verbatim>\<open>repr\<close>
  behind \<^verbatim>\<open>%r\<close>, and \<^verbatim>\<open>as_completed\<close>, which hands the futures it is given back in the
  order in which the worker threads finish them. A future is the object that
  \<^verbatim>\<open>executor.submit\<close> returns: its identity (the position of the submission) and what
  \<^verbatim>\<open>future.result()\<close> will return or raise. The dictionary \<^verbatim>\<open>future_to_url\<close> is an
  association list in insertion order; a lookup of a missing key raises \<^verbatim>\<open>KeyError\<close>
  outside the \<^verbatim>\<open>try\<close>, so it would leave the loop.
\<close>

record future =
  fid :: nat
  result :: "exn + bytes"

definition line_parallel :: "(url \<Rightarrow> string) \<Rightarrow> outcome \<Rightarrow> string" where
  "line_parallel repr x =
     (case x of
        Success url n \<Rightarrow> repr url @ '' page is '' @ decimal n @ '' bytes''
      | Failure url d \<Rightarrow> repr url @ '' generated an exception: '' @ d)"

definition load_url_parallel ::
  "(url \<Rightarrow> nat \<Rightarrow> exn + 'conn) \<Rightarrow> ('conn \<Rightarrow> exn + bytes) \<Rightarrow> url \<Rightarrow> nat \<Rightarrow> exn + bytes" where
  "load_url_parallel urlopen conn_read url timeout =
     (case urlopen url timeout of
        Inl exc \<Rightarrow> Inl exc
      | Inr conn \<Rightarrow> conn_read conn)"

fun submit_all ::
  "(url \<Rightarrow> nat \<Rightarrow> exn + bytes) \<Rightarrow> nat \<Rightarrow> url list \<Rightarrow> (future \<times> url) list" where
  "submit_all load i [] = []"
| "submit_all load i (url # urls) =
     (\<lparr>fid = i, result = load url 60\<rparr>, url) # submit_all load (Suc i) urls"

definition report :: "url \<Rightarrow> future \<Rightarrow> console \<Rightarrow> console" where
  "report url fut out =
     (case result fut of
        Inl exc \<Rightarrow> print (Failure url (str exc)) out
      | Inr data \<Rightarrow> print (Success url (length data)) out)"

fun report_loop :: "(future \<times> url) list \<Rightarrow> future list \<Rightarrow> console \<Rightarrow> exn + console" where
  "report_loop future_to_url [] out = Inr out"
| "report_loop future_to_url (fut # rest) out =
     (case map_of future_to_url fut of
        None \<Rightarrow> Inl (Exception OtherFailure ''KeyError'')
      | Some url \<Rightarrow> report_loop future_to_url rest (report url fut out))"

definition parallel_cell ::
  "(url \<Rightarrow> nat \<Rightarrow> exn + 'conn) \<Rightarrow> ('conn \<Rightarrow> exn + bytes) \<Rightarrow>
   (future list \<Rightarrow> future list) \<Rightarrow> url list \<Rightarrow> exn + console" where
  "parallel_cell urlopen conn_read as_completed urls =
     (let future_to_url = submit_all (load_url_parallel urlopen conn_read) 0 urls
      in report_loop future_to_url (as_completed (map fst future_to_url)) [])"

section \<open>The Async cell\<close>

text \<open>
  \<^verbatim>\<open>
  async def load_url(session, url):
      try:
          async with session.get(url, timeout=60) as response:
              data = await response.read()
              print(f'{url} page is {len(data)} bytes')
      except Exception as exc:
          print(f'{url} generated an exception: {exc}')

  async def main():
      async with aiohttp.ClientSession() as session:
          tasks = [load_url(session, url) for url in URLS]
          await asyncio.gather(*tasks)
  \<close>
  Parameters: \<^verbatim>\<open>session.get\<close> and \<^verbatim>\<open>response.read\<close> (third-party library). The tasks share
  nothing but the console, and a task touches it only in its single \<^verbatim>\<open>print\<close>, after its
  last \<^verbatim>\<open>await\<close>; so a task is one step of the event loop, taken when its I/O is done.
  \<^verbatim>\<open>asyncio.gather\<close> runs every task and returns when none is pending. Which pending task
  finishes next is the event loop's choice: the step relation allows any of them
  (\<open>pick xs x rest\<close>: taking the element \<open>x\<close> out of \<open>xs\<close> at some position leaves \<open>rest\<close>).
\<close>

definition line_async :: "outcome \<Rightarrow> string" where
  "line_async x =
     (case x of
        Success url n \<Rightarrow> url @ '' page is '' @ decimal n @ '' bytes''
      | Failure url d \<Rightarrow> url @ '' generated an exception: '' @ d)"

definition load_url_async ::
  "(url \<Rightarrow> nat \<Rightarrow> exn + 'resp) \<Rightarrow> ('resp \<Rightarrow> exn + bytes) \<Rightarrow> url \<Rightarrow> console \<Rightarrow> console" where
  "load_url_async session_get response_read url out =
     (case session_get url 60 of
        Inl exc \<Rightarrow> print (Failure url (str exc)) out
      | Inr response \<Rightarrow>
          (case response_read response of
             Inl exc \<Rightarrow> print (Failure url (str exc)) out
           | Inr data \<Rightarrow> print (Success url (length data)) out))"

record loop_state =
  pending :: "url list"
  stdout :: console

definition gather_start :: "url list \<Rightarrow> loop_state" where
  "gather_start urls = \<lparr>pending = urls, stdout = []\<rparr>"

inductive pick :: "'a list \<Rightarrow> 'a \<Rightarrow> 'a list \<Rightarrow> bool" where
  pick_here: "pick (x # xs) x xs"
| pick_later: "pick xs y ys \<Longrightarrow> pick (x # xs) y (x # ys)"

code_pred pick .

inductive gather_step ::
  "(url \<Rightarrow> nat \<Rightarrow> exn + 'resp) \<Rightarrow> ('resp \<Rightarrow> exn + bytes) \<Rightarrow> loop_state \<Rightarrow> loop_state \<Rightarrow> bool"
  for session_get response_read where
  task_done: "pick (pending s) url rest \<Longrightarrow>
     s' = \<lparr>pending = rest, stdout = load_url_async session_get response_read url (stdout s)\<rparr> \<Longrightarrow>
     gather_step session_get response_read s s'"

code_pred gather_step .

inductive gather_run ::
  "(url \<Rightarrow> nat \<Rightarrow> exn + 'resp) \<Rightarrow> ('resp \<Rightarrow> exn + bytes) \<Rightarrow> loop_state \<Rightarrow> loop_state \<Rightarrow> bool"
  for session_get response_read where
  run_refl: "gather_run session_get response_read s s"
| run_step: "gather_step session_get response_read s s' \<Longrightarrow>
     gather_run session_get response_read s' s'' \<Longrightarrow>
     gather_run session_get response_read s s''"

code_pred gather_run .

text \<open>\<^verbatim>\<open>await main()\<close> returns with console \<open>out\<close>: a run from the start to no pending task.\<close>

definition main_async ::
  "(url \<Rightarrow> nat \<Rightarrow> exn + 'resp) \<Rightarrow> ('resp \<Rightarrow> exn + bytes) \<Rightarrow> url list \<Rightarrow> console \<Rightarrow> bool" where
  "main_async session_get response_read urls out =
     gather_run session_get response_read (gather_start urls) \<lparr>pending = [], stdout = out\<rparr>"

section \<open>What one unit of work fetches, and the outcome that belongs to it\<close>

text \<open>
  The value a cell's unit of work has in hand when it reaches its \<^verbatim>\<open>print\<close>: the exception
  raised on the way, or the bytes whose length is printed.
\<close>

definition fetch_serial :: "(url \<Rightarrow> nat \<Rightarrow> exn + response) \<Rightarrow> url \<Rightarrow> exn + bytes" where
  "fetch_serial requests_get url =
     (case requests_get url 60 of Inl exc \<Rightarrow> Inl exc | Inr response \<Rightarrow> Inr (content response))"

definition fetch_async ::
  "(url \<Rightarrow> nat \<Rightarrow> exn + 'resp) \<Rightarrow> ('resp \<Rightarrow> exn + bytes) \<Rightarrow> url \<Rightarrow> exn + bytes" where
  "fetch_async session_get response_read url =
     (case session_get url 60 of Inl exc \<Rightarrow> Inl exc | Inr response \<Rightarrow> response_read response)"

definition outcome_of :: "url \<Rightarrow> exn + bytes \<Rightarrow> outcome" where
  "outcome_of url r =
     (case r of Inl exc \<Rightarrow> Failure url (str exc) | Inr data \<Rightarrow> Success url (length data))"

text \<open>The success/failure classification of an outcome, kept with its target.\<close>

definition classification :: "outcome \<Rightarrow> url \<times> bool" where
  "classification x = (target x, is_Success x)"

text \<open>
  The contract of \<^verbatim>\<open>as_completed\<close> (called without a timeout): it yields every future it
  was given, each once, in some order.
\<close>

definition yields_each_once :: "(future list \<Rightarrow> future list) \<Rightarrow> bool" where
  "yields_each_once as_completed = (\<forall>fs. mset (as_completed fs) = mset fs)"


section \<open>The HTTP clients\<close>

text \<open>
  Modelled from the spec: the three HTTP clients (\<^verbatim>\<open>requests\<close>, \<^verbatim>\<open>urllib.request\<close>,
  \<^verbatim>\<open>aiohttp\<close>) are libraries outside the repository. Section 9 of the specification says
  that on a non-2xx response some variants report a success with the size of the error page
  and others a raised error; the outputs saved in the notebook show which: for
  \<^verbatim>\<open>http://europe.wsj.com/\<close> the Serial and Async cells print ``page is 549532 bytes'' and the
  Parallel cell prints ``generated an exception: HTTP Error 403: Forbidden''. A network
  \<open>net\<close> says how the exchange for a URL ends within the timeout: with an exception of the
  transport (name resolution, connection, timeout) or with the final HTTP response. The
  text of a transport exception differs from client to client; here it is the network's.
\<close>

type_synonym net = "url \<Rightarrow> nat \<Rightarrow> exn + response"

text \<open>
  Modelled from the spec: \<^verbatim>\<open>requests.get\<close>, absent from the repository, returns the response
  whatever its status. This and the four models after it say what the client does with a
  plain \<^verbatim>\<open>http\<close> URL that the network answers directly or not at all, as the five of the
  saved run; they say nothing of redirects, of URLs a client refuses before any exchange or
  of other schemes, where the real clients differ from one another. They serve as inputs of
  counterexamples and witnesses only; the theorems take the clients as parameters.
\<close>

definition requests_client :: "net \<Rightarrow> url \<Rightarrow> nat \<Rightarrow> exn + response" where
  "requests_client net url timeout = net url timeout"

text \<open>
  Modelled from the spec: \<^verbatim>\<open>urllib.request.urlopen\<close>, absent from the repository, raises
  \<^verbatim>\<open>HTTPError\<close> (``HTTP Error 403: Forbidden'') when the final status is not 2xx.
\<close>

definition urllib_client :: "net \<Rightarrow> url \<Rightarrow> nat \<Rightarrow> exn + response" where
  "urllib_client net url timeout =
     (case net url timeout of
        Inl exc \<Rightarrow> Inl exc
      | Inr response \<Rightarrow>
          if 200 \<le> status_code response \<and> status_code response < 300 then Inr response
          else Inl (Exception ProtocolFailure
                 (''HTTP Error '' @ decimal (status_code response) @ '': '' @ reason response)))"

text \<open>Modelled from the spec: \<^verbatim>\<open>conn.read()\<close>, absent from the repository, returns the body.\<close>

definition urllib_read :: "response \<Rightarrow> exn + bytes" where
  "urllib_read conn = Inr (content conn)"

text \<open>
  Modelled from the spec: \<^verbatim>\<open>session.get\<close> of \<^verbatim>\<open>aiohttp\<close>, absent from the repository, returns
  the response whatever its status.
\<close>

definition aiohttp_client :: "net \<Rightarrow> url \<Rightarrow> nat \<Rightarrow> exn + response" where
  "aiohttp_client net url timeout = net url timeout"

text \<open>Modelled from the spec: \<^verbatim>\<open>response.read()\<close>, absent from the repository, returns the body.\<close>

definition aiohttp_read :: "response \<Rightarrow> exn + bytes" where
  "aiohttp_read response = Inr (content response)"

text \<open>
  Python's \<^verbatim>\<open>repr\<close> on a string without quotes, backslashes or control characters (every
  URL of \<^verbatim>\<open>URLS\<close> is one): the string between single quotes.
\<close>

definition quoted :: "url \<Rightarrow> string" where
  "quoted url = [CHR 0x27] @ url @ [CHR 0x27]"

text \<open>A response body of \<open>n\<close> bytes (the claims depend on its length only).\<close>

definition page :: "nat \<Rightarrow> bytes" where
  "page n = replicate n 0"

text \<open>
  The network of the run saved in the notebook: four sites answer (one with status 403),
  the last host name does not resolve. Sizes are those of the saved output.
\<close>

definition notebook_net :: net where
  "notebook_net url timeout =
     (if url = ''http://www.foxnews.com/''
        then Inr \<lparr>status_code = 200, reason = ''OK'', content = page 728206\<rparr>
      else if url = ''http://www.cnn.com/''
        then Inr \<lparr>status_code = 200, reason = ''OK'', content = page 3021208\<rparr>
      else if url = ''http://europe.wsj.com/''
        then Inr \<lparr>status_code = 403, reason = ''Forbidden'', content = page 549532\<rparr>
      else if url = ''http://www.bbc.co.uk/''
        then Inr \<lparr>status_code = 200, reason = ''OK'', content = page 583210\<rparr>
      else Inl (Exception NetworkFailure ''getaddrinfo failed''))"

text \<open>The same sites on a later day: same statuses, other page sizes.\<close>

definition later_net :: net where
  "later_net url timeout =
     (if url = ''http://www.foxnews.com/''
        then Inr \<lparr>status_code = 200, reason = ''OK'', content = page 730000\<rparr>
      else if url = ''http://www.cnn.com/''
        then Inr \<lparr>status_code = 200, reason = ''OK'', content = page 3000000\<rparr>
      else if url = ''http://europe.wsj.com/''
        then Inr \<lparr>status_code = 403, reason = ''Forbidden'', content = page 549532\<rparr>
      else if url = ''http://www.bbc.co.uk/''
        then Inr \<lparr>status_code = 200, reason = ''OK'', content = page 590000\<rparr>
      else Inl (Exception NetworkFailure ''getaddrinfo failed''))"

text \<open>A network on which no request is answered within the timeout.\<close>

definition dead_net :: net where
  "dead_net url timeout = Inl (Exception TimeoutFailure ''timed out'')"

text \<open>A client call that raises the given exception for every URL.\<close>

definition raising :: "exn \<Rightarrow> url \<Rightarrow> nat \<Rightarrow> exn + response" where
  "raising exc url timeout = Inl exc"

text \<open>A client call that returns the given response for every URL.\<close>

definition answering :: "response \<Rightarrow> url \<Rightarrow> nat \<Rightarrow> exn + response" where
  "answering response url timeout = Inr response"

text \<open>
  The text of the name-resolution error in the saved output of the Serial, the Parallel and
  the Async cell (each client words it in its own way).
\<close>

definition unresolved_text_requests :: string where
  "unresolved_text_requests = ''HTTPConnectionPool(host='nonexistent-subdomain.python.org', port=80): Max retries exceeded with url: / (Caused by NameResolutionError(\"<urllib3.connection.HTTPConnection object at 0x0000029CFBE6FB50>: Failed to resolve 'nonexistent-subdomain.python.org' ([Errno 11001] getaddrinfo failed)\"))''"

definition unresolved_text_urllib :: string where
  "unresolved_text_urllib = ''<urlopen error [Errno 11001] getaddrinfo failed>''"

definition unresolved_text_aiohttp :: string where
  "unresolved_text_aiohttp = ''Cannot connect to host nonexistent-subdomain.python.org:80 ssl:default [getaddrinfo failed]''"

text \<open>The network of the saved run, with the name-resolution error worded as given.\<close>

definition unresolved_as :: "string \<Rightarrow> net" where
  "unresolved_as wording url timeout =
     (if url = ''http://nonexistent-subdomain.python.org/''
        then Inl (Exception NetworkFailure wording)
      else notebook_net url timeout)"

section \<open>The two shapes of a printed line\<close>

text \<open>
  The specification's two shapes, \<^verbatim>\<open><target> page is <N> bytes\<close> and
  \<^verbatim>\<open><target> generated an exception: <description>\<close>; \<open>shown\<close> is the target as the cell
  prints it (the URL itself, or its \<^verbatim>\<open>repr\<close> in the Parallel cell).
\<close>

definition success_line :: "string \<Rightarrow> string \<Rightarrow> bool" where
  "success_line shown line = (\<exists>n. line = shown @ '' page is '' @ decimal n @ '' bytes'')"

definition failure_line :: "string \<Rightarrow> string \<Rightarrow> bool" where
  "failure_line shown line = (\<exists>d. line = shown @ '' generated an exception: '' @ d)"

text \<open>
  The number of lines one \<^verbatim>\<open>print(text)\<close> shows: \<^verbatim>\<open>print\<close> ends the text with one line
  feed, and every line feed inside the text starts a further line.
\<close>

definition visible_lines :: "string \<Rightarrow> nat" where
  "visible_lines text = Suc (length (filter (\<lambda>c. c = CHR 0x0A) text))"

section \<open>Decimal numerals\<close>

lemma decimal_small: "n < 10 \<Longrightarrow> decimal n = [digit n]"
  by (simp add: decimal.simps)

lemma decimal_large: "\<not> n < 10 \<Longrightarrow> decimal n = decimal (n div 10) @ [digit (n mod 10)]"
  by (subst decimal.simps) simp

lemma digit_value_digit: "d < 10 \<Longrightarrow> digit_value (digit d) = d"
proof -
  assume "d < 10"
  then have "d \<in> {0, 1, 2, 3, 4, 5, 6, 7, 8, 9}" by auto
  then show ?thesis by (auto simp: digit_value_def digit_def)
qed

lemma read_decimal_snoc: "read_decimal (s @ [c]) = 10 * read_decimal s + digit_value c"
  by (simp add: read_decimal_def)

lemma read_decimal_decimal: "read_decimal (decimal n) = n"
proof (induction n rule: decimal.induct)
  case (1 n)
  show ?case
  proof (cases "n < 10")
    case True
    then show ?thesis by (simp add: decimal_small read_decimal_def digit_value_digit)
  next
    case False
    with 1 show ?thesis
      by (simp add: decimal_large read_decimal_snoc digit_value_digit)
  qed
qed

lemma decimal_digits: "set (decimal n) \<subseteq> set ''0123456789''"
proof (induction n rule: decimal.induct)
  case (1 n)
  have d: "digit k \<in> set ''0123456789''" if "k < 10" for k
  proof -
    from that have "k \<in> {0, 1, 2, 3, 4, 5, 6, 7, 8, 9}" by auto
    then show ?thesis by (auto simp: digit_def)
  qed
  show ?case
  proof (cases "n < 10")
    case True
    then show ?thesis using d [of n] by (simp add: decimal_small)
  next
    case False
    with 1 d [of "n mod 10"] show ?thesis by (simp add: decimal_large)
  qed
qed

lemma decimal_no_line_feed: "CHR 0x0A \<notin> set (decimal n)"
  using decimal_digits [of n] by auto

lemma visible_lines_one: "CHR 0x0A \<notin> set text \<Longrightarrow> visible_lines text = 1"
  by (auto simp: visible_lines_def filter_empty_conv)

section \<open>Outcomes and lines\<close>

lemma target_outcome_of: "target (outcome_of url r) = url"
  by (simp add: outcome_of_def split: sum.splits)

lemma is_Success_outcome_of: "is_Success (outcome_of url r) = (\<not> isl r)"
  by (simp add: outcome_of_def split: sum.splits)

lemma classification_outcome_of: "classification (outcome_of url r) = (url, \<not> isl r)"
  by (simp add: classification_def target_outcome_of is_Success_outcome_of)

lemma line_serial_shape:
  "success_line (target x) (line_serial x) = is_Success x \<and>
   failure_line (target x) (line_serial x) = (\<not> is_Success x)"
  by (cases x) (auto simp: line_serial_def success_line_def failure_line_def)

text \<open>
  What follows once a console is known to hold, in some order, the outcome of each target's
  own fetch.
\<close>

lemma outcomes_length:
  "mset out = mset (map (\<lambda>u. outcome_of u (f u)) urls) \<Longrightarrow> length out = length urls"
  by (drule mset_eq_length) simp

lemma outcomes_targets:
  assumes "mset out = mset (map (\<lambda>u. outcome_of u (f u)) urls)"
  shows "mset (map target out) = mset urls"
proof -
  have "mset (map target out) = image_mset target (mset out)" by simp
  also have "\<dots> = mset (map target (map (\<lambda>u. outcome_of u (f u)) urls))"
    by (simp only: assms mset_map)
  also have "\<dots> = mset urls" by (simp add: comp_def target_outcome_of)
  finally show ?thesis .
qed

lemma outcomes_classification:
  assumes "mset out = mset (map (\<lambda>u. outcome_of u (f u)) urls)"
  shows "mset (map classification out) = mset (map (\<lambda>u. (u, \<not> isl (f u))) urls)"
proof -
  have "mset (map classification out) = image_mset classification (mset out)" by simp
  also have "\<dots> = mset (map classification (map (\<lambda>u. outcome_of u (f u)) urls))"
    by (simp only: assms mset_map)
  also have "\<dots> = mset (map (\<lambda>u. (u, \<not> isl (f u))) urls)"
    by (simp add: comp_def classification_outcome_of)
  finally show ?thesis .
qed

lemma classification_cong:
  assumes "\<forall>url \<in> set urls. isl (f url) = isl (g url)"
  shows "map (\<lambda>u. (u, \<not> isl (f u))) urls = map (\<lambda>u. (u, \<not> isl (g u))) urls"
  using assms by simp




lemma outcomes_member:
  assumes "mset out = mset (map (\<lambda>u. outcome_of u (f u)) urls)" and "url \<in> set urls"
  shows "outcome_of url (f url) \<in> set out"
proof -
  from assms(1) have "set out = set (map (\<lambda>u. outcome_of u (f u)) urls)" by (rule mset_eq_setD)
  with assms(2) show ?thesis by auto
qed

lemma outcomes_only:
  assumes "mset out = mset (map (\<lambda>u. outcome_of u (f u)) urls)" and "x \<in> set out"
  shows "x = outcome_of (target x) (f (target x)) \<and> target x \<in> set urls"
proof -
  from assms(1) have "set out = set (map (\<lambda>u. outcome_of u (f u)) urls)" by (rule mset_eq_setD)
  with assms(2) obtain u where "u \<in> set urls" and "x = outcome_of u (f u)" by auto
  then show ?thesis by (simp add: target_outcome_of)
qed

lemma outcomes_of_target:
  assumes "mset out = mset (map (\<lambda>u. outcome_of u (f u)) urls)"
    and "url \<in> set urls" and "outcome_of url (f url) = y"
  shows "y \<in> set out \<and> (\<forall>x \<in> set out. target x = url \<longrightarrow> x = y)"
proof
  from outcomes_member [OF assms(1,2)] assms(3) show "y \<in> set out" by simp
  show "\<forall>x \<in> set out. target x = url \<longrightarrow> x = y"
  proof (intro ballI impI)
    fix x assume xin: "x \<in> set out" and t: "target x = url"
    from outcomes_only [OF assms(1) xin] have e: "x = outcome_of (target x) (f (target x))" ..
    from e [unfolded t assms(3)] show "x = y" .
  qed
qed

section \<open>The Serial cell: the loop\<close>

lemma load_url_serial_outcome:
  "load_url_serial requests_get url out = out @ [outcome_of url (fetch_serial requests_get url)]"
  by (simp add: load_url_serial_def outcome_of_def fetch_serial_def print_def split: sum.splits)

lemma main_serial_outcomes:
  "main_serial requests_get urls out =
   out @ map (\<lambda>url. outcome_of url (fetch_serial requests_get url)) urls"
  by (induction urls arbitrary: out) (simp_all add: load_url_serial_outcome)

lemma main_serial_mset:
  "mset (main_serial requests_get urls []) =
   mset (map (\<lambda>u. outcome_of u (fetch_serial requests_get u)) urls)"
  by (simp add: main_serial_outcomes)

lemma isl_fetch_serial: "isl (fetch_serial requests_get url) = isl (requests_get url 60)"
  by (simp add: fetch_serial_def split: sum.splits)

section \<open>The Parallel cell: futures and the reporting loop\<close>

lemma report_outcome: "report url fut out = out @ [outcome_of url (result fut)]"
  by (simp add: report_def outcome_of_def print_def split: sum.splits)

lemma submit_all_urls: "map snd (submit_all load i urls) = urls"
  by (induction urls arbitrary: i) simp_all

lemma submit_all_fid: "(fut, url) \<in> set (submit_all load i urls) \<Longrightarrow> i \<le> fid fut"
  by (induction urls arbitrary: i) (auto dest: Suc_leD)

lemma submit_all_distinct: "distinct (map fst (submit_all load i urls))"
proof (induction urls arbitrary: i)
  case Nil
  show ?case by simp
next
  case (Cons url urls)
  have "\<lparr>fid = i, result = load url 60\<rparr> \<notin> fst ` set (submit_all load (Suc i) urls)"
  proof
    assume "\<lparr>fid = i, result = load url 60\<rparr> \<in> fst ` set (submit_all load (Suc i) urls)"
    then obtain u where "(\<lparr>fid = i, result = load url 60\<rparr>, u) \<in> set (submit_all load (Suc i) urls)"
      by auto
    from submit_all_fid [OF this] show False by simp
  qed
  with Cons.IH [of "Suc i"] show ?case by simp
qed

lemma submit_all_result:
  "(fut, url) \<in> set (submit_all load i urls) \<Longrightarrow> result fut = load url 60"
  by (induction urls arbitrary: i) auto

lemma submit_all_lookup:
  "(fut, url) \<in> set (submit_all load i urls) \<Longrightarrow> map_of (submit_all load i urls) fut = Some url"
  by (simp add: submit_all_distinct)

lemma report_loop_outcomes:
  assumes "set done \<subseteq> fst ` set (submit_all load i urls)"
  shows "report_loop (submit_all load i urls) done out =
    Inr (out @ map (\<lambda>fut. outcome_of (the (map_of (submit_all load i urls) fut)) (result fut)) done)"
  using assms
proof (induction "done" arbitrary: out)
  case Nil
  show ?case by simp
next
  case (Cons fut rest)
  from Cons.prems obtain url where "(fut, url) \<in> set (submit_all load i urls)" by auto
  then have "map_of (submit_all load i urls) fut = Some url" by (rule submit_all_lookup)
  with Cons show ?case by (simp add: report_outcome)
qed


lemma submit_all_outcomes:
  "map (\<lambda>fut. outcome_of (the (map_of (submit_all load i urls) fut)) (result fut))
       (map fst (submit_all load i urls)) =
   map (\<lambda>url. outcome_of url (load url 60)) urls"
proof -
  have "map (\<lambda>fut. outcome_of (the (map_of (submit_all load i urls) fut)) (result fut))
          (map fst (submit_all load i urls)) =
        map (\<lambda>p. outcome_of (snd p) (load (snd p) 60)) (submit_all load i urls)"
    by (auto simp: submit_all_lookup submit_all_result)
  also have "\<dots> = map (\<lambda>url. outcome_of url (load url 60)) (map snd (submit_all load i urls))"
    by (simp add: comp_def)
  finally show ?thesis by (simp add: submit_all_urls)
qed

lemma parallel_cell_outcomes:
  assumes "yields_each_once as_completed"
  shows "\<exists>out. parallel_cell urlopen conn_read as_completed urls = Inr out \<and>
     mset out = mset (map (\<lambda>url. outcome_of url (load_url_parallel urlopen conn_read url 60)) urls)"
proof -
  let ?load = "load_url_parallel urlopen conn_read"
  let ?ftu = "submit_all ?load 0 urls"
  let ?done = "as_completed (map fst ?ftu)"
  let ?g = "\<lambda>fut. outcome_of (the (map_of ?ftu fut)) (result fut)"
  from assms have perm: "mset ?done = mset (map fst ?ftu)"
    by (simp add: yields_each_once_def)
  then have "set ?done = set (map fst ?ftu)" by (rule mset_eq_setD)
  then have "set ?done \<subseteq> fst ` set ?ftu" by simp
  then have run: "report_loop ?ftu ?done [] = Inr ([] @ map ?g ?done)"
    by (rule report_loop_outcomes)
  have "mset (map ?g ?done) = image_mset ?g (mset ?done)" by simp
  also have "\<dots> = mset (map ?g (map fst ?ftu))" by (simp only: perm mset_map)
  also have "\<dots> = mset (map (\<lambda>url. outcome_of url (?load url 60)) urls)"
    by (simp only: submit_all_outcomes)
  finally have "mset (map ?g ?done) = mset (map (\<lambda>url. outcome_of url (?load url 60)) urls)" .
  with run show ?thesis by (simp add: parallel_cell_def Let_def)
qed

lemma yields_each_once_rev: "yields_each_once rev"
  by (simp add: yields_each_once_def)

lemma yields_each_once_id: "yields_each_once id"
  by (simp add: yields_each_once_def)

section \<open>The Async cell: the event loop\<close>

lemma load_url_async_outcome:
  "load_url_async session_get response_read url out =
   out @ [outcome_of url (fetch_async session_get response_read url)]"
  by (simp add: load_url_async_def outcome_of_def fetch_async_def print_def split: sum.splits)

lemma pick_mset: "pick xs x rest \<Longrightarrow> mset xs = add_mset x (mset rest)"
  by (induction rule: pick.induct) simp_all


lemma pick_nth: "i < length xs \<Longrightarrow> pick xs (xs ! i) (take i xs @ drop (Suc i) xs)"
proof (induction xs arbitrary: i)
  case Nil
  then show ?case by simp
next
  case (Cons x xs)
  show ?case
  proof (cases i)
    case 0
    then show ?thesis by (simp add: pick.pick_here)
  next
    case (Suc j)
    with Cons.prems have "j < length xs" by simp
    from pick.pick_later [OF Cons.IH [OF this]] Suc show ?thesis by simp
  qed
qed

lemma gather_step_balance:
  assumes "gather_step session_get response_read s s'"
  shows "mset (stdout s') +
           mset (map (\<lambda>url. outcome_of url (fetch_async session_get response_read url)) (pending s')) =
         mset (stdout s) +
           mset (map (\<lambda>url. outcome_of url (fetch_async session_get response_read url)) (pending s))"
  using assms
proof cases
  case (task_done url rest)
  let ?U = "\<lambda>url. outcome_of url (fetch_async session_get response_read url)"
  from task_done(1) have "mset (pending s) = add_mset url (mset rest)" by (rule pick_mset)
  then have "image_mset ?U (mset (pending s)) = image_mset ?U (add_mset url (mset rest))"
    by (rule arg_cong)
  then have "mset (map ?U (pending s)) = add_mset (?U url) (mset (map ?U rest))"
    by simp
  with task_done(2) show ?thesis
    by (simp add: load_url_async_outcome)
qed

lemma gather_run_balance:
  assumes "gather_run session_get response_read s s'"
  shows "mset (stdout s') +
           mset (map (\<lambda>url. outcome_of url (fetch_async session_get response_read url)) (pending s')) =
         mset (stdout s) +
           mset (map (\<lambda>url. outcome_of url (fetch_async session_get response_read url)) (pending s))"
  using assms
proof (induction rule: gather_run.induct)
  case (run_refl s)
  show ?case by simp
next
  case (run_step s s' s'')
  from gather_step_balance [OF run_step.hyps(1)] run_step.IH show ?case by simp
qed





lemma gather_step_nth:
  assumes "i < length p"
  shows "gather_step session_get response_read \<lparr>pending = p, stdout = out\<rparr>
     \<lparr>pending = take i p @ drop (Suc i) p,
      stdout = out @ [outcome_of (p ! i) (fetch_async session_get response_read (p ! i))]\<rparr>"
proof -
  from assms have "pick (pending \<lparr>pending = p, stdout = out\<rparr>) (p ! i) (take i p @ drop (Suc i) p)"
    by (simp add: pick_nth)
  from gather_step.task_done [OF this refl, of session_get response_read]
  show ?thesis by (simp add: load_url_async_outcome)
qed


lemma gather_run_pick:
  assumes "i < length p"
    and "gather_run session_get response_read
       \<lparr>pending = take i p @ drop (Suc i) p,
        stdout = out @ [outcome_of (p ! i) (fetch_async session_get response_read (p ! i))]\<rparr> s''"
  shows "gather_run session_get response_read \<lparr>pending = p, stdout = out\<rparr> s''"
  using gather_step_nth [OF assms(1)] assms(2) by (rule gather_run.run_step)

lemma gather_run_in_order:
  "gather_run session_get response_read \<lparr>pending = urls, stdout = out\<rparr>
     \<lparr>pending = [], stdout = out @ map (\<lambda>url. outcome_of url (fetch_async session_get response_read url)) urls\<rparr>"
proof (induction urls arbitrary: out)
  case Nil
  show ?case by (simp add: gather_run.run_refl)
next
  case (Cons url urls)
  have "gather_run session_get response_read
     \<lparr>pending = take 0 (url # urls) @ drop (Suc 0) (url # urls),
      stdout = out @ [outcome_of ((url # urls) ! 0)
        (fetch_async session_get response_read ((url # urls) ! 0))]\<rparr>
     \<lparr>pending = [], stdout = out @
        map (\<lambda>url. outcome_of url (fetch_async session_get response_read url)) (url # urls)\<rparr>"
    using Cons.IH [of "out @ [outcome_of url (fetch_async session_get response_read url)]"]
    by simp
  then show ?case by (rule gather_run_pick [rotated]) simp
qed

lemma main_async_exists:
  "main_async session_get response_read urls
     (map (\<lambda>url. outcome_of url (fetch_async session_get response_read url)) urls)"
  using gather_run_in_order [of session_get response_read urls "[]"]
  by (simp add: main_async_def gather_start_def)

lemma main_async_outcomes:
  assumes "main_async session_get response_read urls out"
  shows "mset out = mset (map (\<lambda>url. outcome_of url (fetch_async session_get response_read url)) urls)"
  using gather_run_balance [OF assms [unfolded main_async_def]]
  by (simp add: gather_start_def)

section \<open>The run saved in the notebook\<close>

text \<open>
  The Async cell's saved output lists the five URLs in the order: the unresolved host, bbc,
  foxnews, cnn, wsj. That order is a run of the event loop on \<open>notebook_net\<close>.
\<close>

lemma length_page: "length (page n) = n"
  by (simp add: page_def)

lemma fetch_async_notebook:
  "fetch_async (aiohttp_client notebook_net) aiohttp_read url =
   (case notebook_net url 60 of Inl exc \<Rightarrow> Inl exc | Inr response \<Rightarrow> Inr (content response))"
  by (simp add: fetch_async_def aiohttp_client_def aiohttp_read_def split: sum.splits)

lemma async_saved_run:
  "main_async (aiohttp_client notebook_net) aiohttp_read URLS
     [Failure ''http://nonexistent-subdomain.python.org/'' ''getaddrinfo failed'',
      Success ''http://www.bbc.co.uk/'' 583210,
      Success ''http://www.foxnews.com/'' 728206,
      Success ''http://www.cnn.com/'' 3021208,
      Success ''http://europe.wsj.com/'' 549532]"
  unfolding main_async_def gather_start_def URLS_def
  apply (rule gather_run_pick [of 4], simp)
  apply (simp add: fetch_async_notebook notebook_net_def outcome_of_def length_page)
  apply (rule gather_run_pick [of 3], simp)
  apply (simp add: fetch_async_notebook notebook_net_def outcome_of_def length_page)
  apply (rule gather_run_pick [of 0], simp)
  apply (simp add: fetch_async_notebook notebook_net_def outcome_of_def length_page)
  apply (rule gather_run_pick [of 0], simp)
  apply (simp add: fetch_async_notebook notebook_net_def outcome_of_def length_page)
  apply (rule gather_run_pick [of 0], simp)
  apply (simp add: fetch_async_notebook notebook_net_def outcome_of_def length_page)
  apply (rule gather_run.run_refl)
  done

lemma wsj_answer:
  "requests_client notebook_net ''http://europe.wsj.com/'' 60 =
   Inr \<lparr>status_code = 403, reason = ''Forbidden'', content = page 549532\<rparr>"
  by (simp add: requests_client_def notebook_net_def)

lemma nonexistent_in_URLS: "''http://nonexistent-subdomain.python.org/'' \<in> set URLS"
  by (simp add: URLS_def)

lemma fetch_async_aiohttp:
  "fetch_async (aiohttp_client net) aiohttp_read url =
   (case net url 60 of Inl exc \<Rightarrow> Inl exc | Inr response \<Rightarrow> Inr (content response))"
  by (simp add: fetch_async_def aiohttp_client_def aiohttp_read_def split: sum.splits)

lemma unresolved_answer:
  "unresolved_as wording ''http://nonexistent-subdomain.python.org/'' 60 =
   Inl (Exception NetworkFailure wording)"
  by (simp add: unresolved_as_def)

lemma async_saved_run_worded:
  "main_async (aiohttp_client (unresolved_as unresolved_text_aiohttp)) aiohttp_read URLS
     [Failure ''http://nonexistent-subdomain.python.org/'' unresolved_text_aiohttp,
      Success ''http://www.bbc.co.uk/'' 583210,
      Success ''http://www.foxnews.com/'' 728206,
      Success ''http://www.cnn.com/'' 3021208,
      Success ''http://europe.wsj.com/'' 549532]"
  unfolding main_async_def gather_start_def URLS_def
  apply (rule gather_run_pick [of 4], simp)
  apply (simp add: fetch_async_aiohttp unresolved_as_def notebook_net_def outcome_of_def length_page)
  apply (rule gather_run_pick [of 3], simp)
  apply (simp add: fetch_async_aiohttp unresolved_as_def notebook_net_def outcome_of_def length_page)
  apply (rule gather_run_pick [of 0], simp)
  apply (simp add: fetch_async_aiohttp unresolved_as_def notebook_net_def outcome_of_def length_page)
  apply (rule gather_run_pick [of 0], simp)
  apply (simp add: fetch_async_aiohttp unresolved_as_def notebook_net_def outcome_of_def length_page)
  apply (rule gather_run_pick [of 0], simp)
  apply (simp add: fetch_async_aiohttp unresolved_as_def notebook_net_def outcome_of_def length_page)
  apply (rule gather_run.run_refl)
  done

section \<open>The claims\<close>

text \<open>
  C1. Every batch produces exactly one outcome per target. The Serial cell prints the
  outcomes in the order of the targets. The Parallel cell, whenever \<^verbatim>\<open>as_completed\<close> yields
  each future once, leaves its loop normally with as many outcomes as targets, and each
  target occurs among the outcomes' targets as often as among the targets submitted. The
  Async cell has a run to the end, and every run to the end leaves such a console. (The
  statement needs no assumption that the list of targets is non-empty.)
\<close>

theorem one_outcome_per_target:
  assumes "yields_each_once as_completed"
  shows "(length (main_serial requests_get urls []) = length urls \<and>
          map target (main_serial requests_get urls []) = urls) \<and>
         (\<exists>out. parallel_cell urlopen conn_read as_completed urls = Inr out \<and>
            length out = length urls \<and> mset (map target out) = mset urls) \<and>
         (\<exists>out. main_async session_get response_read urls out) \<and>
         (\<forall>out. main_async session_get response_read urls out \<longrightarrow>
            length out = length urls \<and> mset (map target out) = mset urls)"
proof -
  have serial: "length (main_serial requests_get urls []) = length urls \<and>
      map target (main_serial requests_get urls []) = urls"
    by (simp add: main_serial_outcomes comp_def target_outcome_of)
  from parallel_cell_outcomes [OF assms]
  obtain out where "parallel_cell urlopen conn_read as_completed urls = Inr out"
    and m: "mset out = mset (map (\<lambda>url. outcome_of url (load_url_parallel urlopen conn_read url 60)) urls)"
    by blast
  then have parallel: "\<exists>out. parallel_cell urlopen conn_read as_completed urls = Inr out \<and>
      length out = length urls \<and> mset (map target out) = mset urls"
    using outcomes_length [OF m] outcomes_targets [OF m] by simp
  have ex: "\<exists>out. main_async session_get response_read urls out"
    using main_async_exists by blast
  have async: "length out = length urls \<and> mset (map target out) = mset urls"
    if "main_async session_get response_read urls out" for out
    using outcomes_length [OF main_async_outcomes [OF that]]
      outcomes_targets [OF main_async_outcomes [OF that]] by simp
  from serial parallel ex async show ?thesis by blast
qed

theorem one_outcome_per_target_witness:
  "yields_each_once rev \<and>
   length (main_serial (requests_client notebook_net) URLS []) = 5 \<and>
   (\<exists>out. parallel_cell (urllib_client notebook_net) urllib_read rev URLS = Inr out \<and>
      length out = 5 \<and> mset (map target out) = mset URLS) \<and>
   main_async (aiohttp_client notebook_net) aiohttp_read URLS
     [Failure ''http://nonexistent-subdomain.python.org/'' ''getaddrinfo failed'',
      Success ''http://www.bbc.co.uk/'' 583210,
      Success ''http://www.foxnews.com/'' 728206,
      Success ''http://www.cnn.com/'' 3021208,
      Success ''http://europe.wsj.com/'' 549532] \<and>
   mset (map target
     [Failure ''http://nonexistent-subdomain.python.org/'' ''getaddrinfo failed'',
      Success ''http://www.bbc.co.uk/'' 583210,
      Success ''http://www.foxnews.com/'' 728206,
      Success ''http://www.cnn.com/'' 3021208,
      Success ''http://europe.wsj.com/'' 549532]) = mset URLS"
proof -
  have c: "length URLS = 5" by (simp add: URLS_def)
  note one_outcome_per_target [OF yields_each_once_rev, of "requests_client notebook_net" URLS
      "urllib_client notebook_net" urllib_read "aiohttp_client notebook_net" aiohttp_read,
      unfolded c]
  with yields_each_once_rev async_saved_run show ?thesis by blast
qed

text \<open>
  C2, as stated, does not hold: it counts a non-success HTTP status among the errors that
  become a failure outcome. \<^verbatim>\<open>http://europe.wsj.com/\<close> answers with status 403; the Serial
  cell and the Async cell, whose clients return that response, print the success line with
  the size of the error page (as the notebook's saved output shows).
\<close>

theorem status_error_printed_as_success:
  "notebook_net ''http://europe.wsj.com/'' 60 =
     Inr \<lparr>status_code = 403, reason = ''Forbidden'', content = page 549532\<rparr> \<and>
   main_serial (requests_client notebook_net) [''http://europe.wsj.com/''] [] =
     [Success ''http://europe.wsj.com/'' 549532] \<and>
   load_url_async (aiohttp_client notebook_net) aiohttp_read ''http://europe.wsj.com/'' [] =
     [Success ''http://europe.wsj.com/'' 549532]"
  by (simp add: notebook_net_def requests_client_def aiohttp_client_def aiohttp_read_def
      load_url_serial_def load_url_async_def print_def length_page)

text \<open>
  C2, amended. Every exception that a target's fetch raises is caught at the unit of work
  and becomes the failure outcome of that target, carrying the exception's text; a
  non-success HTTP status is such an exception only where the client raises on it. No
  error leaves the batch and no unit changes another's outcome: the Serial console is the
  list of the outcomes that each target's own fetch determines, the Parallel loop ends
  normally (\<open>Inr\<close>) with those outcomes in some order whenever \<^verbatim>\<open>as_completed\<close> yields each
  future once, and the Async event loop has a run to the end and every such run leaves
  those outcomes in some order. This holds for every client, so also when every fetch
  fails (the witness: a network that answers nothing).
\<close>

theorem raised_errors_become_failures:
  assumes "yields_each_once as_completed"
  shows "main_serial requests_get urls [] =
           map (\<lambda>url. outcome_of url (fetch_serial requests_get url)) urls \<and>
         (\<exists>out. parallel_cell urlopen conn_read as_completed urls = Inr out \<and>
            mset out =
              mset (map (\<lambda>url. outcome_of url (load_url_parallel urlopen conn_read url 60)) urls)) \<and>
         (\<exists>out. main_async session_get response_read urls out) \<and>
         (\<forall>out. main_async session_get response_read urls out \<longrightarrow>
            mset out =
              mset (map (\<lambda>url. outcome_of url (fetch_async session_get response_read url)) urls)) \<and>
         (\<forall>url exc. requests_get url 60 = Inl exc \<longrightarrow>
            outcome_of url (fetch_serial requests_get url) = Failure url (str exc)) \<and>
         (\<forall>url exc. urlopen url 60 = Inl exc \<longrightarrow>
            outcome_of url (load_url_parallel urlopen conn_read url 60) = Failure url (str exc)) \<and>
         (\<forall>url conn exc. urlopen url 60 = Inr conn \<and> conn_read conn = Inl exc \<longrightarrow>
            outcome_of url (load_url_parallel urlopen conn_read url 60) = Failure url (str exc)) \<and>
         (\<forall>url exc. session_get url 60 = Inl exc \<longrightarrow>
            outcome_of url (fetch_async session_get response_read url) = Failure url (str exc)) \<and>
         (\<forall>url response exc. session_get url 60 = Inr response \<and> response_read response = Inl exc \<longrightarrow>
            outcome_of url (fetch_async session_get response_read url) = Failure url (str exc))"
proof (intro conjI allI impI)
  show "main_serial requests_get urls [] =
      map (\<lambda>url. outcome_of url (fetch_serial requests_get url)) urls"
    by (simp add: main_serial_outcomes)
next
  show "\<exists>out. parallel_cell urlopen conn_read as_completed urls = Inr out \<and>
      mset out = mset (map (\<lambda>url. outcome_of url (load_url_parallel urlopen conn_read url 60)) urls)"
    using assms by (rule parallel_cell_outcomes)
next
  show "\<exists>out. main_async session_get response_read urls out"
    using main_async_exists by blast
next
  fix out assume "main_async session_get response_read urls out"
  then show "mset out =
      mset (map (\<lambda>url. outcome_of url (fetch_async session_get response_read url)) urls)"
    by (rule main_async_outcomes)
next
  fix url exc assume "requests_get url 60 = Inl exc"
  then show "outcome_of url (fetch_serial requests_get url) = Failure url (str exc)"
    by (simp add: outcome_of_def fetch_serial_def)
next
  fix url exc assume "urlopen url 60 = Inl exc"
  then show "outcome_of url (load_url_parallel urlopen conn_read url 60) = Failure url (str exc)"
    by (simp add: outcome_of_def load_url_parallel_def)
next
  fix url conn exc assume "urlopen url 60 = Inr conn \<and> conn_read conn = Inl exc"
  then show "outcome_of url (load_url_parallel urlopen conn_read url 60) = Failure url (str exc)"
    by (simp add: outcome_of_def load_url_parallel_def)
next
  fix url exc assume "session_get url 60 = Inl exc"
  then show "outcome_of url (fetch_async session_get response_read url) = Failure url (str exc)"
    by (simp add: outcome_of_def fetch_async_def)
next
  fix url response exc
  assume "session_get url 60 = Inr response \<and> response_read response = Inl exc"
  then show "outcome_of url (fetch_async session_get response_read url) = Failure url (str exc)"
    by (simp add: outcome_of_def fetch_async_def)
qed

theorem raised_errors_become_failures_witness:
  "yields_each_once rev \<and>
   requests_client dead_net ''http://www.cnn.com/'' 60 = Inl (Exception TimeoutFailure ''timed out'') \<and>
   main_serial (requests_client dead_net) URLS [] =
     [Failure ''http://www.foxnews.com/'' ''timed out'',
      Failure ''http://www.cnn.com/'' ''timed out'',
      Failure ''http://europe.wsj.com/'' ''timed out'',
      Failure ''http://www.bbc.co.uk/'' ''timed out'',
      Failure ''http://nonexistent-subdomain.python.org/'' ''timed out''] \<and>
   (\<exists>out. parallel_cell (urllib_client dead_net) urllib_read rev URLS = Inr out \<and>
      mset out =
        mset [Failure ''http://www.foxnews.com/'' ''timed out'',
              Failure ''http://www.cnn.com/'' ''timed out'',
              Failure ''http://europe.wsj.com/'' ''timed out'',
              Failure ''http://www.bbc.co.uk/'' ''timed out'',
              Failure ''http://nonexistent-subdomain.python.org/'' ''timed out'']) \<and>
   (\<exists>out. main_async (aiohttp_client dead_net) aiohttp_read URLS out)"
proof -
  note t = raised_errors_become_failures [OF yields_each_once_rev,
    where requests_get = "requests_client dead_net" and urls = URLS
      and urlopen = "urllib_client dead_net" and conn_read = urllib_read
      and session_get = "aiohttp_client dead_net" and response_read = aiohttp_read]
  have g: "requests_client dead_net ''http://www.cnn.com/'' 60 =
      Inl (Exception TimeoutFailure ''timed out'')"
    by (simp add: requests_client_def dead_net_def)
  from t [THEN conjunct1]
  have s1: "main_serial (requests_client dead_net) URLS [] =
     [Failure ''http://www.foxnews.com/'' ''timed out'',
      Failure ''http://www.cnn.com/'' ''timed out'',
      Failure ''http://europe.wsj.com/'' ''timed out'',
      Failure ''http://www.bbc.co.uk/'' ''timed out'',
      Failure ''http://nonexistent-subdomain.python.org/'' ''timed out'']"
    by (simp add: URLS_def outcome_of_def fetch_serial_def requests_client_def dead_net_def)
  have e: "map (\<lambda>url. outcome_of url (load_url_parallel (urllib_client dead_net) urllib_read url 60)) URLS =
     [Failure ''http://www.foxnews.com/'' ''timed out'',
      Failure ''http://www.cnn.com/'' ''timed out'',
      Failure ''http://europe.wsj.com/'' ''timed out'',
      Failure ''http://www.bbc.co.uk/'' ''timed out'',
      Failure ''http://nonexistent-subdomain.python.org/'' ''timed out'']"
    by (simp add: URLS_def outcome_of_def load_url_parallel_def urllib_client_def dead_net_def)
  note s2 = t [THEN conjunct2, THEN conjunct1, unfolded e]
  note s3 = t [THEN conjunct2, THEN conjunct2, THEN conjunct1]
  from yields_each_once_rev g s1 s2 s3
  show ?thesis by (intro conjI)
qed






text \<open>
  C4. For a target whose fetch succeeds, the byte count of its success outcome is the
  length of the body received: \<^verbatim>\<open>len(response.content)\<close> in the Serial cell, the length of
  what \<^verbatim>\<open>conn.read()\<close> returned in the Parallel cell, the length of what
  \<^verbatim>\<open>response.read()\<close> returned in the Async cell. In each batch that success outcome is
  printed and is the only outcome of the target; the printed line carries the count in
  decimal, and reading the numeral back gives the count.
\<close>

theorem success_reports_payload_size:
  assumes "yields_each_once as_completed" and "url \<in> set urls"
  shows "(requests_get url 60 = Inr response \<longrightarrow>
            Success url (length (content response)) \<in> set (main_serial requests_get urls []) \<and>
            (\<forall>x \<in> set (main_serial requests_get urls []).
               target x = url \<longrightarrow> x = Success url (length (content response)))) \<and>
         (urlopen url 60 = Inr conn \<and> conn_read conn = Inr data \<longrightarrow>
            (\<exists>out. parallel_cell urlopen conn_read as_completed urls = Inr out \<and>
               Success url (length data) \<in> set out \<and>
               (\<forall>x \<in> set out. target x = url \<longrightarrow> x = Success url (length data)))) \<and>
         (session_get url 60 = Inr aresponse \<and> response_read aresponse = Inr adata \<and>
          main_async session_get response_read urls out_async \<longrightarrow>
            Success url (length adata) \<in> set out_async \<and>
            (\<forall>x \<in> set out_async. target x = url \<longrightarrow> x = Success url (length adata))) \<and>
         (line_serial (Success url n) = url @ '' page is '' @ decimal n @ '' bytes'' \<and>
          line_parallel repr (Success url n) = repr url @ '' page is '' @ decimal n @ '' bytes'' \<and>
          line_async (Success url n) = url @ '' page is '' @ decimal n @ '' bytes'' \<and>
          read_decimal (decimal n) = n)"
proof (intro conjI impI)
  assume "requests_get url 60 = Inr response"
  then have "outcome_of url (fetch_serial requests_get url) = Success url (length (content response))"
    by (simp add: outcome_of_def fetch_serial_def)
  from outcomes_of_target [OF main_serial_mset assms(2) this]
  show "Success url (length (content response)) \<in> set (main_serial requests_get urls [])"
    and "\<forall>x \<in> set (main_serial requests_get urls []).
       target x = url \<longrightarrow> x = Success url (length (content response))"
    by simp_all
next
  assume "urlopen url 60 = Inr conn \<and> conn_read conn = Inr data"
  then have y: "outcome_of url (load_url_parallel urlopen conn_read url 60) = Success url (length data)"
    by (simp add: outcome_of_def load_url_parallel_def)
  from parallel_cell_outcomes [OF assms(1)]
  obtain out where r: "parallel_cell urlopen conn_read as_completed urls = Inr out"
    and m: "mset out = mset (map (\<lambda>url. outcome_of url (load_url_parallel urlopen conn_read url 60)) urls)"
    by blast
  from r outcomes_of_target [OF m assms(2) y]
  show "\<exists>out. parallel_cell urlopen conn_read as_completed urls = Inr out \<and>
      Success url (length data) \<in> set out \<and>
      (\<forall>x \<in> set out. target x = url \<longrightarrow> x = Success url (length data))"
    by blast
next
  assume a: "session_get url 60 = Inr aresponse \<and> response_read aresponse = Inr adata \<and>
    main_async session_get response_read urls out_async"
  then have y: "outcome_of url (fetch_async session_get response_read url) = Success url (length adata)"
    by (simp add: outcome_of_def fetch_async_def)
  from a have "main_async session_get response_read urls out_async" by simp
  from outcomes_of_target [OF main_async_outcomes [OF this] assms(2) y]
  show "Success url (length adata) \<in> set out_async"
    and "\<forall>x \<in> set out_async. target x = url \<longrightarrow> x = Success url (length adata)"
    by simp_all
next
  show "line_serial (Success url n) = url @ '' page is '' @ decimal n @ '' bytes''"
    by (simp add: line_serial_def)
  show "line_parallel repr (Success url n) = repr url @ '' page is '' @ decimal n @ '' bytes''"
    by (simp add: line_parallel_def)
  show "line_async (Success url n) = url @ '' page is '' @ decimal n @ '' bytes''"
    by (simp add: line_async_def)
  show "read_decimal (decimal n) = n" by (rule read_decimal_decimal)
qed

lemma bbc_answer:
  "notebook_net ''http://www.bbc.co.uk/'' 60 =
   Inr \<lparr>status_code = 200, reason = ''OK'', content = page 583210\<rparr>"
  by (simp add: notebook_net_def)

lemma bbc_in_URLS: "''http://www.bbc.co.uk/'' \<in> set URLS"
  by (simp add: URLS_def)

lemma decimal_583210: "decimal 583210 = ''583210''"
  by (simp add: decimal_small decimal_large digit_def)

theorem success_reports_payload_size_witness:
  "yields_each_once rev \<and>
   ''http://www.bbc.co.uk/'' \<in> set URLS \<and>
   requests_client notebook_net ''http://www.bbc.co.uk/'' 60 =
     Inr \<lparr>status_code = 200, reason = ''OK'', content = page 583210\<rparr> \<and>
   Success ''http://www.bbc.co.uk/'' 583210 \<in> set (main_serial (requests_client notebook_net) URLS []) \<and>
   urllib_client notebook_net ''http://www.bbc.co.uk/'' 60 =
     Inr \<lparr>status_code = 200, reason = ''OK'', content = page 583210\<rparr> \<and>
   urllib_read \<lparr>status_code = 200, reason = ''OK'', content = page 583210\<rparr> = Inr (page 583210) \<and>
   (\<exists>out. parallel_cell (urllib_client notebook_net) urllib_read rev URLS = Inr out \<and>
      Success ''http://www.bbc.co.uk/'' 583210 \<in> set out) \<and>
   aiohttp_client notebook_net ''http://www.bbc.co.uk/'' 60 =
     Inr \<lparr>status_code = 200, reason = ''OK'', content = page 583210\<rparr> \<and>
   aiohttp_read \<lparr>status_code = 200, reason = ''OK'', content = page 583210\<rparr> = Inr (page 583210) \<and>
   main_async (aiohttp_client notebook_net) aiohttp_read URLS
     [Failure ''http://nonexistent-subdomain.python.org/'' ''getaddrinfo failed'',
      Success ''http://www.bbc.co.uk/'' 583210,
      Success ''http://www.foxnews.com/'' 728206,
      Success ''http://www.cnn.com/'' 3021208,
      Success ''http://europe.wsj.com/'' 549532] \<and>
   line_serial (Success ''http://www.bbc.co.uk/'' 583210) = ''http://www.bbc.co.uk/ page is 583210 bytes'' \<and>
   line_parallel quoted (Success ''http://www.bbc.co.uk/'' 583210) =
     [CHR 0x27] @ ''http://www.bbc.co.uk/'' @ [CHR 0x27] @ '' page is 583210 bytes'' \<and>
   read_decimal ''583210'' = 583210"
proof -
  let ?r = "\<lparr>status_code = 200, reason = ''OK'', content = page 583210\<rparr>"
  have g: "requests_client notebook_net ''http://www.bbc.co.uk/'' 60 = Inr ?r"
    by (simp add: requests_client_def bbc_answer)
  have u: "urllib_client notebook_net ''http://www.bbc.co.uk/'' 60 = Inr ?r"
    by (simp add: urllib_client_def bbc_answer)
  have ur: "urllib_read ?r = Inr (page 583210)" by (simp add: urllib_read_def)
  have a: "aiohttp_client notebook_net ''http://www.bbc.co.uk/'' 60 = Inr ?r"
    by (simp add: aiohttp_client_def bbc_answer)
  have ar: "aiohttp_read ?r = Inr (page 583210)" by (simp add: aiohttp_read_def)
  have c: "content ?r = page 583210" by simp
  note t = success_reports_payload_size [OF yields_each_once_rev bbc_in_URLS,
    where requests_get = "requests_client notebook_net" and response = ?r
      and urlopen = "urllib_client notebook_net" and conn_read = urllib_read and conn = ?r
      and data = "page 583210"
      and session_get = "aiohttp_client notebook_net" and response_read = aiohttp_read
      and aresponse = ?r and adata = "page 583210"
      and out_async = "[Failure ''http://nonexistent-subdomain.python.org/'' ''getaddrinfo failed'',
        Success ''http://www.bbc.co.uk/'' 583210,
        Success ''http://www.foxnews.com/'' 728206,
        Success ''http://www.cnn.com/'' 3021208,
        Success ''http://europe.wsj.com/'' 549532]"
      and repr = quoted and n = 583210, unfolded c length_page decimal_583210]
  from t g u ur a ar async_saved_run yields_each_once_rev bbc_in_URLS
  show ?thesis by (simp add: quoted_def) blast
qed

text \<open>
  C5, as stated, does not hold where it says ``exactly one visible line'': the cells print
  the target and the exception's text as they are (only the Parallel cell prints the target
  through \<^verbatim>\<open>%r\<close>), so a line feed in either shows as a further line. Here the target has
  one; both \<^verbatim>\<open>print\<close> statements of the Serial cell start with \<^verbatim>\<open>{url}\<close>, so the output
  has two visible lines whether the fetch raises or returns.
\<close>

theorem line_feed_gives_two_visible_lines:
  "map line_serial
     (main_serial (raising (Exception TimeoutFailure ''timed out''))
        [''http://a/'' @ [CHR 0x0A] @ ''b''] []) =
     [''http://a/'' @ [CHR 0x0A] @ ''b generated an exception: timed out''] \<and>
   visible_lines (''http://a/'' @ [CHR 0x0A] @ ''b generated an exception: timed out'') = 2 \<and>
   map line_serial
     (main_serial (answering \<lparr>status_code = 200, reason = ''OK'', content = page 3\<rparr>)
        [''http://a/'' @ [CHR 0x0A] @ ''b''] []) =
     [''http://a/'' @ [CHR 0x0A] @ ''b page is 3 bytes''] \<and>
   visible_lines (''http://a/'' @ [CHR 0x0A] @ ''b page is 3 bytes'') = 2"
  by (simp add: load_url_serial_def raising_def answering_def print_def line_serial_def
      visible_lines_def length_page decimal_small digit_def)

text \<open>
  C5, amended. Every target gets exactly one \<^verbatim>\<open>print\<close>, whose text is decided by the
  target's own fetch. Serial: the texts printed are, in the order of the targets, the line
  of each target's outcome; Parallel and Async: the same texts, each as often, in some
  order (the Parallel cell ends normally whenever \<^verbatim>\<open>as_completed\<close> yields each future once;
  the Async event loop has a run to the end). If the fetch raised, the text is the target
  as the cell shows it, `` generated an exception: '' and the exception's text: a failure
  is reported inline, never left out and never as a success. If the fetch returned, the
  text is the target, `` page is '', the length of the bytes in decimal and `` bytes''. No
  text has both shapes. The text is one visible line whenever the target as shown and the
  exception's text hold no line feed.
\<close>

theorem every_target_prints_its_line:
  assumes "yields_each_once as_completed"
  shows "map line_serial (main_serial requests_get urls []) =
           map (\<lambda>url. line_serial (outcome_of url (fetch_serial requests_get url))) urls \<and>
         (\<exists>out. parallel_cell urlopen conn_read as_completed urls = Inr out \<and>
            mset (map (line_parallel repr) out) =
              mset (map (\<lambda>url. line_parallel repr
                (outcome_of url (load_url_parallel urlopen conn_read url 60))) urls)) \<and>
         (\<exists>out. main_async session_get response_read urls out) \<and>
         (\<forall>out. main_async session_get response_read urls out \<longrightarrow>
            mset (map line_async out) =
              mset (map (\<lambda>url. line_async
                (outcome_of url (fetch_async session_get response_read url))) urls)) \<and>
         (requests_get url 60 = Inl exc \<longrightarrow>
            line_serial (outcome_of url (fetch_serial requests_get url)) =
              url @ '' generated an exception: '' @ str exc) \<and>
         (requests_get url 60 = Inr response \<longrightarrow>
            line_serial (outcome_of url (fetch_serial requests_get url)) =
              url @ '' page is '' @ decimal (length (content response)) @ '' bytes'') \<and>
         (load_url_parallel urlopen conn_read url 60 = Inl exc \<longrightarrow>
            line_parallel repr (outcome_of url (load_url_parallel urlopen conn_read url 60)) =
              repr url @ '' generated an exception: '' @ str exc) \<and>
         (load_url_parallel urlopen conn_read url 60 = Inr data \<longrightarrow>
            line_parallel repr (outcome_of url (load_url_parallel urlopen conn_read url 60)) =
              repr url @ '' page is '' @ decimal (length data) @ '' bytes'') \<and>
         (fetch_async session_get response_read url = Inl exc \<longrightarrow>
            line_async (outcome_of url (fetch_async session_get response_read url)) =
              url @ '' generated an exception: '' @ str exc) \<and>
         (fetch_async session_get response_read url = Inr data \<longrightarrow>
            line_async (outcome_of url (fetch_async session_get response_read url)) =
              url @ '' page is '' @ decimal (length data) @ '' bytes'') \<and>
         shown @ '' page is '' @ decimal n @ '' bytes'' \<noteq> shown @ '' generated an exception: '' @ d \<and>
         (CHR 0x0A \<notin> set shown \<and> CHR 0x0A \<notin> set d \<longrightarrow>
            visible_lines (shown @ '' page is '' @ decimal n @ '' bytes'') = 1 \<and>
            visible_lines (shown @ '' generated an exception: '' @ d) = 1)"
proof (intro conjI impI allI)
  show "map line_serial (main_serial requests_get urls []) =
      map (\<lambda>url. line_serial (outcome_of url (fetch_serial requests_get url))) urls"
    by (simp add: main_serial_outcomes)
next
  from parallel_cell_outcomes [OF assms]
  obtain out where r: "parallel_cell urlopen conn_read as_completed urls = Inr out"
    and m: "mset out = mset (map (\<lambda>url. outcome_of url (load_url_parallel urlopen conn_read url 60)) urls)"
    by blast
  have "mset (map (line_parallel repr) out) = image_mset (line_parallel repr) (mset out)" by simp
  also have "\<dots> = mset (map (line_parallel repr)
      (map (\<lambda>url. outcome_of url (load_url_parallel urlopen conn_read url 60)) urls))"
    by (simp only: m mset_map)
  finally have "mset (map (line_parallel repr) out) =
      mset (map (\<lambda>url. line_parallel repr
        (outcome_of url (load_url_parallel urlopen conn_read url 60))) urls)"
    by (simp add: comp_def)
  with r show "\<exists>out. parallel_cell urlopen conn_read as_completed urls = Inr out \<and>
      mset (map (line_parallel repr) out) =
        mset (map (\<lambda>url. line_parallel repr
          (outcome_of url (load_url_parallel urlopen conn_read url 60))) urls)"
    by blast
next
  show "\<exists>out. main_async session_get response_read urls out"
    using main_async_exists by blast
next
  fix out assume "main_async session_get response_read urls out"
  note m = main_async_outcomes [OF this]
  have "mset (map line_async out) = image_mset line_async (mset out)" by simp
  also have "\<dots> = mset (map line_async
      (map (\<lambda>url. outcome_of url (fetch_async session_get response_read url)) urls))"
    by (simp only: m mset_map)
  finally show "mset (map line_async out) =
      mset (map (\<lambda>url. line_async
        (outcome_of url (fetch_async session_get response_read url))) urls)"
    by (simp add: comp_def)
next
  assume "requests_get url 60 = Inl exc"
  then show "line_serial (outcome_of url (fetch_serial requests_get url)) =
      url @ '' generated an exception: '' @ str exc"
    by (simp add: line_serial_def outcome_of_def fetch_serial_def)
next
  assume "requests_get url 60 = Inr response"
  then show "line_serial (outcome_of url (fetch_serial requests_get url)) =
      url @ '' page is '' @ decimal (length (content response)) @ '' bytes''"
    by (simp add: line_serial_def outcome_of_def fetch_serial_def)
next
  assume "load_url_parallel urlopen conn_read url 60 = Inl exc"
  then show "line_parallel repr (outcome_of url (load_url_parallel urlopen conn_read url 60)) =
      repr url @ '' generated an exception: '' @ str exc"
    by (simp add: line_parallel_def outcome_of_def)
next
  assume "load_url_parallel urlopen conn_read url 60 = Inr data"
  then show "line_parallel repr (outcome_of url (load_url_parallel urlopen conn_read url 60)) =
      repr url @ '' page is '' @ decimal (length data) @ '' bytes''"
    by (simp add: line_parallel_def outcome_of_def)
next
  assume "fetch_async session_get response_read url = Inl exc"
  then show "line_async (outcome_of url (fetch_async session_get response_read url)) =
      url @ '' generated an exception: '' @ str exc"
    by (simp add: line_async_def outcome_of_def)
next
  assume "fetch_async session_get response_read url = Inr data"
  then show "line_async (outcome_of url (fetch_async session_get response_read url)) =
      url @ '' page is '' @ decimal (length data) @ '' bytes''"
    by (simp add: line_async_def outcome_of_def)
next
  show "shown @ '' page is '' @ decimal n @ '' bytes'' \<noteq> shown @ '' generated an exception: '' @ d"
    by simp
next
  assume "CHR 0x0A \<notin> set shown \<and> CHR 0x0A \<notin> set d"
  then show "visible_lines (shown @ '' page is '' @ decimal n @ '' bytes'') = 1"
    and "visible_lines (shown @ '' generated an exception: '' @ d) = 1"
    by (simp_all add: visible_lines_one decimal_no_line_feed)
qed

lemma saved_sizes_decimal:
  "decimal 728206 = ''728206''" "decimal 3021208 = ''3021208''"
  "decimal 549532 = ''549532''" "decimal 583210 = ''583210''" "decimal 403 = ''403''"
  by (simp_all add: decimal_small decimal_large digit_def)

theorem every_target_prints_its_line_witness:
  "yields_each_once rev \<and>
   map line_serial
     (main_serial (requests_client (unresolved_as unresolved_text_requests)) URLS []) =
     [''http://www.foxnews.com/ page is 728206 bytes'',
      ''http://www.cnn.com/ page is 3021208 bytes'',
      ''http://europe.wsj.com/ page is 549532 bytes'',
      ''http://www.bbc.co.uk/ page is 583210 bytes'',
      ''http://nonexistent-subdomain.python.org/ generated an exception: HTTPConnectionPool(host='nonexistent-subdomain.python.org', port=80): Max retries exceeded with url: / (Caused by NameResolutionError(\"<urllib3.connection.HTTPConnection object at 0x0000029CFBE6FB50>: Failed to resolve 'nonexistent-subdomain.python.org' ([Errno 11001] getaddrinfo failed)\"))''] \<and>
   (\<exists>out. parallel_cell (urllib_client (unresolved_as unresolved_text_urllib)) urllib_read rev URLS
        = Inr out \<and>
      mset (map (line_parallel quoted) out) =
        mset [[CHR 0x27] @ ''http://www.foxnews.com/'' @ [CHR 0x27] @ '' page is 728206 bytes'',
      [CHR 0x27] @ ''http://www.cnn.com/'' @ [CHR 0x27] @ '' page is 3021208 bytes'',
      [CHR 0x27] @ ''http://europe.wsj.com/'' @ [CHR 0x27] @ '' generated an exception: HTTP Error 403: Forbidden'',
      [CHR 0x27] @ ''http://www.bbc.co.uk/'' @ [CHR 0x27] @ '' page is 583210 bytes'',
      [CHR 0x27] @ ''http://nonexistent-subdomain.python.org/'' @ [CHR 0x27] @ '' generated an exception: <urlopen error [Errno 11001] getaddrinfo failed>'']) \<and>
   main_async (aiohttp_client (unresolved_as unresolved_text_aiohttp)) aiohttp_read URLS
     [Failure ''http://nonexistent-subdomain.python.org/'' unresolved_text_aiohttp,
      Success ''http://www.bbc.co.uk/'' 583210,
      Success ''http://www.foxnews.com/'' 728206,
      Success ''http://www.cnn.com/'' 3021208,
      Success ''http://europe.wsj.com/'' 549532] \<and>
   mset (map line_async
     [Failure ''http://nonexistent-subdomain.python.org/'' unresolved_text_aiohttp,
      Success ''http://www.bbc.co.uk/'' 583210,
      Success ''http://www.foxnews.com/'' 728206,
      Success ''http://www.cnn.com/'' 3021208,
      Success ''http://europe.wsj.com/'' 549532]) =
     mset [''http://www.foxnews.com/ page is 728206 bytes'',
      ''http://www.cnn.com/ page is 3021208 bytes'',
      ''http://europe.wsj.com/ page is 549532 bytes'',
      ''http://www.bbc.co.uk/ page is 583210 bytes'',
      ''http://nonexistent-subdomain.python.org/ generated an exception: Cannot connect to host nonexistent-subdomain.python.org:80 ssl:default [getaddrinfo failed]''] \<and>
   requests_client (unresolved_as unresolved_text_requests)
       ''http://nonexistent-subdomain.python.org/'' 60 =
     Inl (Exception NetworkFailure unresolved_text_requests) \<and>
   line_serial (outcome_of ''http://nonexistent-subdomain.python.org/''
       (fetch_serial (requests_client (unresolved_as unresolved_text_requests))
          ''http://nonexistent-subdomain.python.org/'')) =
     ''http://nonexistent-subdomain.python.org/'' @ '' generated an exception: '' @
       unresolved_text_requests \<and>
   visible_lines (''http://nonexistent-subdomain.python.org/'' @ '' generated an exception: '' @
       unresolved_text_requests) = 1"
proof -
  note t = every_target_prints_its_line [OF yields_each_once_rev,
    where requests_get = "requests_client (unresolved_as unresolved_text_requests)"
      and urls = URLS
      and urlopen = "urllib_client (unresolved_as unresolved_text_urllib)"
      and conn_read = urllib_read and repr = quoted
      and session_get = "aiohttp_client (unresolved_as unresolved_text_aiohttp)"
      and response_read = aiohttp_read
      and url = "''http://nonexistent-subdomain.python.org/''"
      and exc = "Exception NetworkFailure unresolved_text_requests"
      and shown = "''http://nonexistent-subdomain.python.org/''"
      and d = unresolved_text_requests]
  have e1: "map (\<lambda>url. line_serial (outcome_of url
      (fetch_serial (requests_client (unresolved_as unresolved_text_requests)) url))) URLS =
     [''http://www.foxnews.com/ page is 728206 bytes'',
      ''http://www.cnn.com/ page is 3021208 bytes'',
      ''http://europe.wsj.com/ page is 549532 bytes'',
      ''http://www.bbc.co.uk/ page is 583210 bytes'',
      ''http://nonexistent-subdomain.python.org/ generated an exception: HTTPConnectionPool(host='nonexistent-subdomain.python.org', port=80): Max retries exceeded with url: / (Caused by NameResolutionError(\"<urllib3.connection.HTTPConnection object at 0x0000029CFBE6FB50>: Failed to resolve 'nonexistent-subdomain.python.org' ([Errno 11001] getaddrinfo failed)\"))'']"
    by (simp add: URLS_def line_serial_def outcome_of_def fetch_serial_def requests_client_def
        unresolved_as_def notebook_net_def length_page saved_sizes_decimal
        unresolved_text_requests_def)
  have e2: "map (\<lambda>url. line_parallel quoted (outcome_of url
      (load_url_parallel (urllib_client (unresolved_as unresolved_text_urllib)) urllib_read url 60)))
      URLS =
     [[CHR 0x27] @ ''http://www.foxnews.com/'' @ [CHR 0x27] @ '' page is 728206 bytes'',
      [CHR 0x27] @ ''http://www.cnn.com/'' @ [CHR 0x27] @ '' page is 3021208 bytes'',
      [CHR 0x27] @ ''http://europe.wsj.com/'' @ [CHR 0x27] @ '' generated an exception: HTTP Error 403: Forbidden'',
      [CHR 0x27] @ ''http://www.bbc.co.uk/'' @ [CHR 0x27] @ '' page is 583210 bytes'',
      [CHR 0x27] @ ''http://nonexistent-subdomain.python.org/'' @ [CHR 0x27] @ '' generated an exception: <urlopen error [Errno 11001] getaddrinfo failed>'']"
    by (simp add: URLS_def line_parallel_def quoted_def outcome_of_def load_url_parallel_def
        urllib_client_def urllib_read_def unresolved_as_def notebook_net_def length_page
        saved_sizes_decimal unresolved_text_urllib_def)
  have e3: "map (\<lambda>url. line_async (outcome_of url
      (fetch_async (aiohttp_client (unresolved_as unresolved_text_aiohttp)) aiohttp_read url)))
      URLS =
     [''http://www.foxnews.com/ page is 728206 bytes'',
      ''http://www.cnn.com/ page is 3021208 bytes'',
      ''http://europe.wsj.com/ page is 549532 bytes'',
      ''http://www.bbc.co.uk/ page is 583210 bytes'',
      ''http://nonexistent-subdomain.python.org/ generated an exception: Cannot connect to host nonexistent-subdomain.python.org:80 ssl:default [getaddrinfo failed]'']"
    by (simp add: URLS_def line_async_def outcome_of_def fetch_async_aiohttp
        unresolved_as_def notebook_net_def length_page saved_sizes_decimal
        unresolved_text_aiohttp_def)
  have g: "requests_client (unresolved_as unresolved_text_requests)
       ''http://nonexistent-subdomain.python.org/'' 60 =
      Inl (Exception NetworkFailure unresolved_text_requests)"
    by (simp add: requests_client_def unresolved_answer)
  have nl: "CHR 0x0A \<notin> set ''http://nonexistent-subdomain.python.org/'' \<and>
      CHR 0x0A \<notin> set unresolved_text_requests"
    by (simp add: unresolved_text_requests_def)
  note s1 = t [THEN conjunct1, unfolded e1]
  note s2 = t [THEN conjunct2, THEN conjunct1, unfolded e2]
  note s3 = t [THEN conjunct2, THEN conjunct2, THEN conjunct2, THEN conjunct1, THEN spec, THEN mp,
    OF async_saved_run_worded, unfolded e3]
  from t [THEN conjunct2, THEN conjunct2, THEN conjunct2, THEN conjunct2, THEN conjunct1,
    THEN mp, OF g]
  have s4: "line_serial (outcome_of ''http://nonexistent-subdomain.python.org/''
       (fetch_serial (requests_client (unresolved_as unresolved_text_requests))
          ''http://nonexistent-subdomain.python.org/'')) =
     ''http://nonexistent-subdomain.python.org/'' @ '' generated an exception: '' @
       unresolved_text_requests"
    by simp
  note s5 = t [THEN conjunct2, THEN conjunct2, THEN conjunct2, THEN conjunct2, THEN conjunct2,
    THEN conjunct2, THEN conjunct2, THEN conjunct2, THEN conjunct2, THEN conjunct2,
    THEN conjunct2, THEN mp, OF nl, THEN conjunct2]
  from yields_each_once_rev s1 s2 async_saved_run_worded s3 g s4 s5
  show ?thesis by (intro conjI)
qed

text \<open>
  C6, as stated, does not hold where it says that the failure outcome characterises the
  failure as a network failure (NetworkFailure): an outcome holds the target and the text
  of the exception, never its class. An exception of the network-failure class and one of
  another class with the same text give the same outcome.
\<close>

theorem outcome_has_no_failure_tag:
  "main_serial (raising (Exception NetworkFailure unresolved_text_requests))
     [''http://nonexistent-subdomain.python.org/''] [] =
     [Failure ''http://nonexistent-subdomain.python.org/'' unresolved_text_requests] \<and>
   main_serial (raising (Exception OtherFailure unresolved_text_requests))
     [''http://nonexistent-subdomain.python.org/''] [] =
     [Failure ''http://nonexistent-subdomain.python.org/'' unresolved_text_requests]"
  by (simp add: load_url_serial_def raising_def print_def)

text \<open>
  C6, amended. A target whose host name does not resolve: the client's call raises an
  exception, of class \<open>k\<close> (the network-failure class, for an unresolved host) and with text
  \<open>d\<close>. Then in every cell the batch reports the failure outcome of that target with the
  text \<open>d\<close>, every outcome of that target is this failure (so none is a success), and the
  batch still returns normally (the Parallel loop ends with \<open>Inr\<close>, the Async event loop has
  a run to the end). The printed line is the ``generated an exception'' line carrying \<open>d\<close>;
  the class \<open>k\<close> is nowhere in it, so the failure is characterised as a network failure only
  as far as the client's text \<open>d\<close> does it (as the three saved texts do).
\<close>

theorem unresolved_host_reported_by_description:
  assumes "yields_each_once as_completed" and "url \<in> set urls"
  shows "(requests_get url 60 = Inl (Exception k d) \<longrightarrow>
            Failure url d \<in> set (main_serial requests_get urls []) \<and>
            (\<forall>x \<in> set (main_serial requests_get urls []). target x = url \<longrightarrow> x = Failure url d)) \<and>
         (urlopen url 60 = Inl (Exception k d) \<longrightarrow>
            (\<exists>out. parallel_cell urlopen conn_read as_completed urls = Inr out \<and>
               Failure url d \<in> set out \<and>
               (\<forall>x \<in> set out. target x = url \<longrightarrow> x = Failure url d))) \<and>
         (session_get url 60 = Inl (Exception k d) \<longrightarrow>
            (\<exists>out. main_async session_get response_read urls out) \<and>
            (\<forall>out. main_async session_get response_read urls out \<longrightarrow>
               Failure url d \<in> set out \<and>
               (\<forall>x \<in> set out. target x = url \<longrightarrow> x = Failure url d))) \<and>
         (line_serial (Failure url d) = url @ '' generated an exception: '' @ d \<and>
          line_parallel repr (Failure url d) = repr url @ '' generated an exception: '' @ d \<and>
          line_async (Failure url d) = url @ '' generated an exception: '' @ d)"
proof (intro conjI impI allI)
  assume "requests_get url 60 = Inl (Exception k d)"
  then have "outcome_of url (fetch_serial requests_get url) = Failure url d"
    by (simp add: outcome_of_def fetch_serial_def)
  from outcomes_of_target [OF main_serial_mset assms(2) this]
  show "Failure url d \<in> set (main_serial requests_get urls [])"
    and "\<forall>x \<in> set (main_serial requests_get urls []). target x = url \<longrightarrow> x = Failure url d"
    by simp_all
next
  assume "urlopen url 60 = Inl (Exception k d)"
  then have y: "outcome_of url (load_url_parallel urlopen conn_read url 60) = Failure url d"
    by (simp add: outcome_of_def load_url_parallel_def)
  from parallel_cell_outcomes [OF assms(1)]
  obtain out where r: "parallel_cell urlopen conn_read as_completed urls = Inr out"
    and m: "mset out = mset (map (\<lambda>url. outcome_of url (load_url_parallel urlopen conn_read url 60)) urls)"
    by blast
  from r outcomes_of_target [OF m assms(2) y]
  show "\<exists>out. parallel_cell urlopen conn_read as_completed urls = Inr out \<and>
      Failure url d \<in> set out \<and> (\<forall>x \<in> set out. target x = url \<longrightarrow> x = Failure url d)"
    by blast
next
  show "\<exists>out. main_async session_get response_read urls out"
    using main_async_exists by blast
next
  fix out
  assume "session_get url 60 = Inl (Exception k d)"
    and run: "main_async session_get response_read urls out"
  then have y: "outcome_of url (fetch_async session_get response_read url) = Failure url d"
    by (simp add: outcome_of_def fetch_async_def)
  from outcomes_of_target [OF main_async_outcomes [OF run] assms(2) y]
  show "Failure url d \<in> set out" and "\<forall>x \<in> set out. target x = url \<longrightarrow> x = Failure url d"
    by simp_all
next
  show "line_serial (Failure url d) = url @ '' generated an exception: '' @ d"
    by (simp add: line_serial_def)
  show "line_parallel repr (Failure url d) = repr url @ '' generated an exception: '' @ d"
    by (simp add: line_parallel_def)
  show "line_async (Failure url d) = url @ '' generated an exception: '' @ d"
    by (simp add: line_async_def)
qed

theorem unresolved_host_reported_by_description_witness:
  "yields_each_once rev \<and>
   ''http://nonexistent-subdomain.python.org/'' \<in> set URLS \<and>
   requests_client (unresolved_as unresolved_text_requests)
       ''http://nonexistent-subdomain.python.org/'' 60 =
     Inl (Exception NetworkFailure unresolved_text_requests) \<and>
   Failure ''http://nonexistent-subdomain.python.org/'' unresolved_text_requests
     \<in> set (main_serial (requests_client (unresolved_as unresolved_text_requests)) URLS []) \<and>
   line_serial (Failure ''http://nonexistent-subdomain.python.org/'' unresolved_text_requests) =
     ''http://nonexistent-subdomain.python.org/ generated an exception: HTTPConnectionPool(host='nonexistent-subdomain.python.org', port=80): Max retries exceeded with url: / (Caused by NameResolutionError(\"<urllib3.connection.HTTPConnection object at 0x0000029CFBE6FB50>: Failed to resolve 'nonexistent-subdomain.python.org' ([Errno 11001] getaddrinfo failed)\"))'' \<and>
   urllib_client (unresolved_as unresolved_text_urllib)
       ''http://nonexistent-subdomain.python.org/'' 60 =
     Inl (Exception NetworkFailure unresolved_text_urllib) \<and>
   (\<exists>out. parallel_cell (urllib_client (unresolved_as unresolved_text_urllib)) urllib_read rev URLS
        = Inr out \<and>
      Failure ''http://nonexistent-subdomain.python.org/'' unresolved_text_urllib \<in> set out) \<and>
   line_parallel quoted (Failure ''http://nonexistent-subdomain.python.org/'' unresolved_text_urllib) =
     [CHR 0x27] @ ''http://nonexistent-subdomain.python.org/'' @ [CHR 0x27] @
     '' generated an exception: <urlopen error [Errno 11001] getaddrinfo failed>'' \<and>
   aiohttp_client (unresolved_as unresolved_text_aiohttp)
       ''http://nonexistent-subdomain.python.org/'' 60 =
     Inl (Exception NetworkFailure unresolved_text_aiohttp) \<and>
   main_async (aiohttp_client (unresolved_as unresolved_text_aiohttp)) aiohttp_read URLS
     [Failure ''http://nonexistent-subdomain.python.org/'' unresolved_text_aiohttp,
      Success ''http://www.bbc.co.uk/'' 583210,
      Success ''http://www.foxnews.com/'' 728206,
      Success ''http://www.cnn.com/'' 3021208,
      Success ''http://europe.wsj.com/'' 549532] \<and>
   line_async (Failure ''http://nonexistent-subdomain.python.org/'' unresolved_text_aiohttp) =
     ''http://nonexistent-subdomain.python.org/ generated an exception: Cannot connect to host nonexistent-subdomain.python.org:80 ssl:default [getaddrinfo failed]''"
proof -
  have g: "requests_client (unresolved_as unresolved_text_requests)
       ''http://nonexistent-subdomain.python.org/'' 60 =
      Inl (Exception NetworkFailure unresolved_text_requests)"
    by (simp add: requests_client_def unresolved_answer)
  have u: "urllib_client (unresolved_as unresolved_text_urllib)
       ''http://nonexistent-subdomain.python.org/'' 60 =
      Inl (Exception NetworkFailure unresolved_text_urllib)"
    by (simp add: urllib_client_def unresolved_answer)
  have a: "aiohttp_client (unresolved_as unresolved_text_aiohttp)
       ''http://nonexistent-subdomain.python.org/'' 60 =
      Inl (Exception NetworkFailure unresolved_text_aiohttp)"
    by (simp add: aiohttp_client_def unresolved_answer)
  note ts = unresolved_host_reported_by_description [OF yields_each_once_rev nonexistent_in_URLS,
    where requests_get = "requests_client (unresolved_as unresolved_text_requests)"
      and k = NetworkFailure and d = unresolved_text_requests]
  note tp = unresolved_host_reported_by_description [OF yields_each_once_rev nonexistent_in_URLS,
    where urlopen = "urllib_client (unresolved_as unresolved_text_urllib)"
      and conn_read = urllib_read and repr = quoted
      and k = NetworkFailure and d = unresolved_text_urllib]
  note ta = unresolved_host_reported_by_description [OF yields_each_once_rev nonexistent_in_URLS,
    where session_get = "aiohttp_client (unresolved_as unresolved_text_aiohttp)"
      and response_read = aiohttp_read
      and k = NetworkFailure and d = unresolved_text_aiohttp]
  from ts [THEN conjunct1, THEN mp, OF g]
  have s1: "Failure ''http://nonexistent-subdomain.python.org/'' unresolved_text_requests
     \<in> set (main_serial (requests_client (unresolved_as unresolved_text_requests)) URLS [])" ..
  from ts [THEN conjunct2, THEN conjunct2, THEN conjunct2, THEN conjunct1]
  have l1: "line_serial (Failure ''http://nonexistent-subdomain.python.org/'' unresolved_text_requests) =
     ''http://nonexistent-subdomain.python.org/ generated an exception: HTTPConnectionPool(host='nonexistent-subdomain.python.org', port=80): Max retries exceeded with url: / (Caused by NameResolutionError(\"<urllib3.connection.HTTPConnection object at 0x0000029CFBE6FB50>: Failed to resolve 'nonexistent-subdomain.python.org' ([Errno 11001] getaddrinfo failed)\"))''"
    by (simp add: unresolved_text_requests_def)
  from tp [THEN conjunct2, THEN conjunct1, THEN mp, OF u]
  have s2: "\<exists>out. parallel_cell (urllib_client (unresolved_as unresolved_text_urllib)) urllib_read rev URLS
        = Inr out \<and>
      Failure ''http://nonexistent-subdomain.python.org/'' unresolved_text_urllib \<in> set out"
    by blast
  from tp [THEN conjunct2, THEN conjunct2, THEN conjunct2, THEN conjunct2, THEN conjunct1]
  have l2: "line_parallel quoted (Failure ''http://nonexistent-subdomain.python.org/'' unresolved_text_urllib) =
     [CHR 0x27] @ ''http://nonexistent-subdomain.python.org/'' @ [CHR 0x27] @
     '' generated an exception: <urlopen error [Errno 11001] getaddrinfo failed>''"
    by (simp add: unresolved_text_urllib_def quoted_def)
  from ta [THEN conjunct2, THEN conjunct2, THEN conjunct2, THEN conjunct2, THEN conjunct2]
  have l3: "line_async (Failure ''http://nonexistent-subdomain.python.org/'' unresolved_text_aiohttp) =
     ''http://nonexistent-subdomain.python.org/ generated an exception: Cannot connect to host nonexistent-subdomain.python.org:80 ssl:default [getaddrinfo failed]''"
    by (simp add: unresolved_text_aiohttp_def)
  from yields_each_once_rev nonexistent_in_URLS g s1 l1 u s2 l2 a async_saved_run_worded l3
  show ?thesis by (intro conjI)
qed




text \<open>
  C9. Two runs of the same batch, against endpoints that are deterministic in whether a
  fetch fails (the clients of the two runs raise for the same targets; what they return may
  differ, as a page of another size): the outcomes of the two runs have the same
  success/failure classification per target. Serial: the two lists of classifications are
  equal. Parallel and Async: whatever the two completion orders, each (target,
  classification) pair occurs equally often in both runs.
\<close>

theorem rerun_same_classification:
  assumes "yields_each_once as_completed" and "yields_each_once as_completed'"
    and "\<forall>url \<in> set urls. isl (requests_get url 60) = isl (requests_get' url 60)"
    and "\<forall>url \<in> set urls. isl (load_url_parallel urlopen conn_read url 60) =
           isl (load_url_parallel urlopen' conn_read' url 60)"
    and "\<forall>url \<in> set urls. isl (fetch_async session_get response_read url) =
           isl (fetch_async session_get' response_read' url)"
  shows "map classification (main_serial requests_get urls []) =
           map classification (main_serial requests_get' urls []) \<and>
         (\<exists>out out'. parallel_cell urlopen conn_read as_completed urls = Inr out \<and>
            parallel_cell urlopen' conn_read' as_completed' urls = Inr out' \<and>
            mset (map classification out) = mset (map classification out')) \<and>
         (\<forall>out out'. main_async session_get response_read urls out \<and>
            main_async session_get' response_read' urls out' \<longrightarrow>
            mset (map classification out) = mset (map classification out'))"
proof (intro conjI allI impI)
  from assms(3) have "\<forall>url \<in> set urls.
      isl (fetch_serial requests_get url) = isl (fetch_serial requests_get' url)"
    by (simp add: isl_fetch_serial)
  then have "map (\<lambda>u. (u, \<not> isl (fetch_serial requests_get u))) urls =
      map (\<lambda>u. (u, \<not> isl (fetch_serial requests_get' u))) urls"
    by (rule classification_cong)
  then show "map classification (main_serial requests_get urls []) =
      map classification (main_serial requests_get' urls [])"
    by (simp add: main_serial_outcomes comp_def classification_outcome_of)
next
  from parallel_cell_outcomes [OF assms(1)]
  obtain out where r: "parallel_cell urlopen conn_read as_completed urls = Inr out"
    and m: "mset out = mset (map (\<lambda>url. outcome_of url (load_url_parallel urlopen conn_read url 60)) urls)"
    by blast
  from parallel_cell_outcomes [OF assms(2)]
  obtain out' where r': "parallel_cell urlopen' conn_read' as_completed' urls = Inr out'"
    and m': "mset out' = mset (map (\<lambda>url. outcome_of url (load_url_parallel urlopen' conn_read' url 60)) urls)"
    by blast
  from outcomes_classification [OF m] outcomes_classification [OF m']
    classification_cong [OF assms(4)]
  have "mset (map classification out) = mset (map classification out')" by simp
  with r r' show "\<exists>out out'. parallel_cell urlopen conn_read as_completed urls = Inr out \<and>
      parallel_cell urlopen' conn_read' as_completed' urls = Inr out' \<and>
      mset (map classification out) = mset (map classification out')"
    by blast
next
  fix out out'
  assume "main_async session_get response_read urls out \<and>
    main_async session_get' response_read' urls out'"
  then have a: "main_async session_get response_read urls out"
    and a': "main_async session_get' response_read' urls out'"
    by simp_all
  from outcomes_classification [OF main_async_outcomes [OF a]]
    outcomes_classification [OF main_async_outcomes [OF a']]
    classification_cong [OF assms(5)]
  show "mset (map classification out) = mset (map classification out')" by simp
qed

lemma fetch_async_later:
  "fetch_async (aiohttp_client later_net) aiohttp_read url =
   (case later_net url 60 of Inl exc \<Rightarrow> Inl exc | Inr response \<Rightarrow> Inr (content response))"
  by (simp add: fetch_async_def aiohttp_client_def aiohttp_read_def split: sum.splits)

lemma async_later_run:
  "main_async (aiohttp_client later_net) aiohttp_read URLS
     [Success ''http://www.foxnews.com/'' 730000,
      Success ''http://www.cnn.com/'' 3000000,
      Success ''http://europe.wsj.com/'' 549532,
      Success ''http://www.bbc.co.uk/'' 590000,
      Failure ''http://nonexistent-subdomain.python.org/'' ''getaddrinfo failed'']"
  unfolding main_async_def gather_start_def URLS_def
  apply (rule gather_run_pick [of 0], simp)
  apply (simp add: fetch_async_later later_net_def outcome_of_def length_page)
  apply (rule gather_run_pick [of 0], simp)
  apply (simp add: fetch_async_later later_net_def outcome_of_def length_page)
  apply (rule gather_run_pick [of 0], simp)
  apply (simp add: fetch_async_later later_net_def outcome_of_def length_page)
  apply (rule gather_run_pick [of 0], simp)
  apply (simp add: fetch_async_later later_net_def outcome_of_def length_page)
  apply (rule gather_run_pick [of 0], simp)
  apply (simp add: fetch_async_later later_net_def outcome_of_def length_page)
  apply (rule gather_run.run_refl)
  done

lemma same_sites_requests:
  "\<forall>url \<in> set URLS. isl (requests_client notebook_net url 60) = isl (requests_client later_net url 60)"
  by (simp add: URLS_def requests_client_def notebook_net_def later_net_def)

lemma same_sites_urllib:
  "\<forall>url \<in> set URLS. isl (load_url_parallel (urllib_client notebook_net) urllib_read url 60) =
     isl (load_url_parallel (urllib_client later_net) urllib_read url 60)"
  by (simp add: URLS_def load_url_parallel_def urllib_client_def urllib_read_def
      notebook_net_def later_net_def)

lemma same_sites_aiohttp:
  "\<forall>url \<in> set URLS. isl (fetch_async (aiohttp_client notebook_net) aiohttp_read url) =
     isl (fetch_async (aiohttp_client later_net) aiohttp_read url)"
  by (simp add: URLS_def fetch_async_notebook fetch_async_later notebook_net_def later_net_def)

theorem rerun_same_classification_witness:
  "yields_each_once rev \<and> yields_each_once id \<and>
   list_all (\<lambda>url. isl (requests_client notebook_net url 60) = isl (requests_client later_net url 60))
     URLS \<and>
   map classification (main_serial (requests_client notebook_net) URLS []) =
     map classification (main_serial (requests_client later_net) URLS []) \<and>
   (\<exists>out out'. parallel_cell (urllib_client notebook_net) urllib_read rev URLS = Inr out \<and>
      parallel_cell (urllib_client later_net) urllib_read id URLS = Inr out' \<and>
      mset (map classification out) = mset (map classification out')) \<and>
   mset (map classification
     [Failure ''http://nonexistent-subdomain.python.org/'' ''getaddrinfo failed'',
      Success ''http://www.bbc.co.uk/'' 583210,
      Success ''http://www.foxnews.com/'' 728206,
      Success ''http://www.cnn.com/'' 3021208,
      Success ''http://europe.wsj.com/'' 549532]) =
   mset (map classification
     [Success ''http://www.foxnews.com/'' 730000,
      Success ''http://www.cnn.com/'' 3000000,
      Success ''http://europe.wsj.com/'' 549532,
      Success ''http://www.bbc.co.uk/'' 590000,
      Failure ''http://nonexistent-subdomain.python.org/'' ''getaddrinfo failed''])"
proof -
  note t = rerun_same_classification [where as_completed = rev and as_completed' = id
      and urls = URLS
      and requests_get = "requests_client notebook_net" and requests_get' = "requests_client later_net"
      and urlopen = "urllib_client notebook_net" and conn_read = urllib_read
      and urlopen' = "urllib_client later_net" and conn_read' = urllib_read
      and session_get = "aiohttp_client notebook_net" and response_read = aiohttp_read
      and session_get' = "aiohttp_client later_net" and response_read' = aiohttp_read,
    OF yields_each_once_rev yields_each_once_id
      same_sites_requests same_sites_urllib same_sites_aiohttp]
  from same_sites_requests
  have s0: "list_all (\<lambda>url. isl (requests_client notebook_net url 60) =
      isl (requests_client later_net url 60)) URLS"
    by (simp only: list_all_iff)
  note s1 = t [THEN conjunct1]
  note s2 = t [THEN conjunct2, THEN conjunct1]
  note s3 = t [THEN conjunct2, THEN conjunct2, THEN spec, THEN spec, THEN mp,
    OF conjI, OF async_saved_run async_later_run]
  from yields_each_once_rev yields_each_once_id s0 s1 s2 s3
  show ?thesis by (intro conjI)
qed

text \<open>
  C10. In the Serial cell, a fetch for which \<^verbatim>\<open>requests.get\<close> returns a response whose
  status is not 2xx is reported as a success: the unit prints the ``page is N bytes'' line
  with N the length of the response body, that line is not a failure line, and in the
  batch every outcome of that target is this success. (The cell never reads the status; the
  witness is the saved output's line for \<^verbatim>\<open>http://europe.wsj.com/\<close>, which answered 403.)
\<close>

theorem serial_status_error_is_success:
  assumes "requests_get url 60 = Inr response"
    and "\<not> (200 \<le> status_code response \<and> status_code response < 300)"
    and "url \<in> set urls"
  shows "load_url_serial requests_get url out = out @ [Success url (length (content response))] \<and>
         line_serial (Success url (length (content response))) =
           url @ '' page is '' @ decimal (length (content response)) @ '' bytes'' \<and>
         \<not> failure_line url (line_serial (Success url (length (content response)))) \<and>
         Success url (length (content response)) \<in> set (main_serial requests_get urls []) \<and>
         (\<forall>x \<in> set (main_serial requests_get urls []).
            target x = url \<longrightarrow> x = Success url (length (content response)))"
proof -
  from assms(1) have f: "outcome_of url (fetch_serial requests_get url) =
      Success url (length (content response))"
    by (simp add: outcome_of_def fetch_serial_def)
  have unit: "load_url_serial requests_get url out = out @ [Success url (length (content response))]"
    by (simp add: load_url_serial_outcome f)
  have line: "line_serial (Success url (length (content response))) =
      url @ '' page is '' @ decimal (length (content response)) @ '' bytes''"
    by (simp add: line_serial_def)
  have nofail: "\<not> failure_line url (line_serial (Success url (length (content response))))"
    using line_serial_shape [of "Success url (length (content response))"] by simp
  have m: "mset (main_serial requests_get urls []) =
      mset (map (\<lambda>u. outcome_of u (fetch_serial requests_get u)) urls)"
    by (simp add: main_serial_outcomes)
  from outcomes_member [OF m assms(3)] f
  have mem: "Success url (length (content response)) \<in> set (main_serial requests_get urls [])"
    by simp
  have only: "x = Success url (length (content response))"
    if "x \<in> set (main_serial requests_get urls [])" and "target x = url" for x
    using outcomes_only [OF m that(1)] that(2) f by simp
  from unit line nofail mem only show ?thesis by blast
qed

theorem serial_status_error_is_success_witness:
  "requests_client notebook_net ''http://europe.wsj.com/'' 60 =
     Inr \<lparr>status_code = 403, reason = ''Forbidden'', content = page 549532\<rparr> \<and>
   \<not> (200 \<le> (403::nat) \<and> (403::nat) < 300) \<and>
   ''http://europe.wsj.com/'' \<in> set URLS \<and>
   load_url_serial (requests_client notebook_net) ''http://europe.wsj.com/'' [] =
     [Success ''http://europe.wsj.com/'' 549532] \<and>
   line_serial (Success ''http://europe.wsj.com/'' 549532) =
     ''http://europe.wsj.com/ page is 549532 bytes'' \<and>
   Success ''http://europe.wsj.com/'' 549532 \<in> set (main_serial (requests_client notebook_net) URLS [])"
proof -
  have s: "\<not> (200 \<le> status_code \<lparr>status_code = 403, reason = ''Forbidden'', content = page 549532\<rparr>
      \<and> status_code \<lparr>status_code = 403, reason = ''Forbidden'', content = page 549532\<rparr> < 300)"
    by simp
  have u: "''http://europe.wsj.com/'' \<in> set URLS" by (simp add: URLS_def)
  have d: "decimal 549532 = ''549532''" by (simp add: decimal_small decimal_large digit_def)
  from serial_status_error_is_success [where requests_get = "requests_client notebook_net"
      and url = "''http://europe.wsj.com/''" and urls = URLS and out = "[]", OF wsj_answer s u]
    wsj_answer u d
  show ?thesis by (simp add: length_page)
qed

end
